theory Spec2Isabelle
  imports Main
begin

section \<open>JavaScript values used by the Agent Task Protocol Client\<close>

text \<open>
  Strings are lists of characters, one \<^typ>\<open>char\<close> per UTF-16 code unit (the model covers the
  code units 0 to 255). An optional parameter or field \<open>x?: string\<close> is a
  \<^typ>\<open>string option\<close>, \<open>None\<close> being \<open>undefined\<close>/\<open>null\<close>.

  A condition \<open>if (x)\<close> on such a value is JavaScript truthiness: \<open>undefined\<close> and the empty
  string are both falsy.
\<close>

fun truthy :: "string option \<Rightarrow> bool" where
  "truthy None = False"
| "truthy (Some s) = (s \<noteq> [])"

text \<open>\<open>x || d\<close> on an optional string.\<close>

fun or_default :: "string option \<Rightarrow> string \<Rightarrow> string" where
  "or_default None d = d"
| "or_default (Some s) d = (if s \<noteq> [] then s else d)"

text \<open>\<open>s.padEnd(n, c)\<close> with a one-character filler.\<close>

definition padEnd :: "string \<Rightarrow> nat \<Rightarrow> char \<Rightarrow> string" where
  "padEnd s n c = s @ replicate (n - length s) c"

text \<open>\<open>xs.join(sep)\<close>.\<close>

fun join :: "string \<Rightarrow> string list \<Rightarrow> string" where
  "join sep [] = []"
| "join sep [x] = x"
| "join sep (x # y # ys) = x @ sep @ join sep (y # ys)"

text \<open>
  \<open>s.trim()\<close>: the white space and line terminators of ECMAScript that lie in the modelled
  range are TAB, LF, VT, FF, CR, SPACE and NO-BREAK SPACE.
\<close>

definition isWhiteSpace :: "char \<Rightarrow> bool" where
  "isWhiteSpace c = (of_char c \<in> {9, 10, 11, 12, 13, 32, 160 :: nat})"

definition trim :: "string \<Rightarrow> string" where
  "trim s = rev (dropWhile isWhiteSpace (rev (dropWhile isWhiteSpace s)))"

text \<open>The test \<open>/^[\x00-\x7F]*$/\<close>: every code unit is at most 127.\<close>

definition isAscii :: "string \<Rightarrow> bool" where
  "isAscii s = list_all (\<lambda>c. (of_char c :: nat) < 128) s"

section \<open>Task identity and context id (agentMessageHandler.ts, sendAgentMessage, lines 187--214)\<close>

text \<open>
  \<open>generateId()\<close> is \<open>crypto.randomUUID()\<close>; the identifier it returns is the parameter
  \<open>newId\<close>. The mutable array \<open>referenceTaskIds\<close> starts empty and is pushed to at most once.
\<close>

definition resolveTaskId ::
  "string \<Rightarrow> string option \<Rightarrow> string option \<Rightarrow> string option \<Rightarrow> string \<times> string list" where
  "resolveTaskId newId replyToTaskId currentTaskId taskState =
     (if truthy replyToTaskId then (newId, [] @ [the replyToTaskId])
      else
        (let isNonTerminalState =
               (truthy taskState \<and>
                (taskState = Some ''input-required'' \<or> taskState = Some ''auth-required''))
         in if isNonTerminalState \<and> truthy currentTaskId then (the currentTaskId, [])
            else (newId, if truthy currentTaskId then [] @ [the currentTaskId] else [])))"

text \<open>
  The same decision in chat.ts, sendMessage, lines 236--253. \<open>isNonTerminalState\<close> is imported
  from a module that is not part of the sources and is a parameter here.
\<close>

definition sendMessage_taskId ::
  "(string \<Rightarrow> bool) \<Rightarrow> string \<Rightarrow> string option \<Rightarrow> string option \<Rightarrow> string option
     \<Rightarrow> string \<times> string list" where
  "sendMessage_taskId isNonTerminalState newId replyTo currentTask currentState =
     (if truthy replyTo then (newId, [the replyTo])
      else if truthy currentState \<and> isNonTerminalState (the currentState) \<and> truthy currentTask
        then (the currentTask, [])
      else if truthy currentTask then (newId, [the currentTask])
      else (newId, []))"

text \<open>The derivation of \<open>newContextId\<close>, lines 211--214.\<close>

definition deriveContextId :: "string \<Rightarrow> string option \<Rightarrow> string" where
  "deriveContextId newId contextId =
     (if truthy contextId
      then (if length (the contextId) = 24 then padEnd (the contextId) 32 (CHR ''0'')
            else the contextId)
      else newId)"

text \<open>
  The Task Identity Resolver as the specification words it, "present" read as "not undefined".
\<close>

definition resolver_spec ::
  "string \<Rightarrow> string option \<Rightarrow> string option \<Rightarrow> string option \<Rightarrow> string \<times> string list" where
  "resolver_spec newId replyToTaskId currentTaskId currentTaskState =
     (case replyToTaskId of
        Some r \<Rightarrow> (newId, [r])
      | None \<Rightarrow>
          (case currentTaskId of
             Some c \<Rightarrow>
               (if currentTaskState = Some ''input-required'' \<or> currentTaskState = Some ''auth-required''
                then (c, []) else (newId, [c]))
           | None \<Rightarrow> (newId, [])))"

text \<open>
  The context-id derivation as the specification words it: a string of length 24 is padded,
  a string of any other length passes through.
\<close>

definition contextId_spec :: "string \<Rightarrow> string" where
  "contextId_spec c = (if length c = 24 then c @ replicate 8 (CHR ''0'') else c)"

section \<open>Errors and HTTP responses\<close>

text \<open>
  A thrown value is either an \<open>Error\<close> instance carrying its message (also the
  \<open>TypeError\<close> of a rejected \<open>fetch\<close> and the \<open>SyntaxError\<close> of \<open>response.json()\<close>) or
  some other value. An awaited call that may reject returns a sum, \<open>Inl\<close> the thrown value.
\<close>

datatype js_error = Error string | NonError

text \<open>\<open>error instanceof Error ? error.message : 'Unknown error'\<close>.\<close>

fun error_message :: "js_error \<Rightarrow> string" where
  "error_message (Error m) = m"
| "error_message NonError = ''Unknown error''"

text \<open>
  What the client reads of a \<open>Response\<close>: the status code, the outcome of \<open>json()\<close> and the
  outcome of \<open>text()\<close>. \<open>response.ok\<close> is a status in the range 200 to 299.
\<close>

record 'a response =
  status :: nat
  json :: "js_error + 'a"
  body_text :: "js_error + string"

definition ok :: "'a response \<Rightarrow> bool" where
  "ok r = (200 \<le> status r \<and> status r \<le> 299)"

text \<open>The decimal digits of a status code, for template strings.\<close>

fun string_of_nat :: "nat \<Rightarrow> string" where
  "string_of_nat n =
     (if n < 10 then [char_of (48 + n)]
      else string_of_nat (n div 10) @ [char_of (48 + n mod 10)])"

declare string_of_nat.simps [simp del]

text \<open>\<open>await response.text().catch(() => 'Unknown error')\<close>.\<close>

definition errorText :: "'a response \<Rightarrow> string" where
  "errorText r = (case body_text r of Inl e \<Rightarrow> ''Unknown error'' | Inr t \<Rightarrow> t)"

section \<open>Payment Challenge Handler (paymentHandler.ts)\<close>

text \<open>
  The module-level variable \<open>paymentToken\<close> is passed in and returned by every function
  that reads or writes it. A header object is an association list.
\<close>

type_synonym payment_token = "string option"
type_synonym headers = "(string \<times> string) list"

definition getPaymentHeaders :: "payment_token \<Rightarrow> headers \<times> payment_token" where
  "getPaymentHeaders paymentToken =
     (if \<not> truthy paymentToken then ([], paymentToken)
      else
        (let cleanToken = trim (the paymentToken)
         in if \<not> isAscii cleanToken then ([], None)
            else ([(''X-PAYMENT'', cleanToken)], paymentToken)))"

definition clearPaymentToken :: "payment_token \<Rightarrow> payment_token" where
  "clearPaymentToken paymentToken = None"

definition hasPaymentToken :: "payment_token \<Rightarrow> bool" where
  "hasPaymentToken paymentToken = (paymentToken \<noteq> None \<and> length (the paymentToken) > 0)"

record session_data =
  session_id :: "string option"
  browser_url :: "string option"

record payment_status =
  pay_status :: string
  pay_token :: "string option"
  pay_error :: "string option"

text \<open>
  What the outside world answers during one payment challenge: the session-start call,
  whether \<open>window.open\<close> returned a window, and the answer to the k-th status poll.
\<close>

record payment_env =
  session_fetch :: "js_error + session_data response"
  popup_opened :: bool
  status_fetch :: "nat \<Rightarrow> js_error + payment_status response"

text \<open>
  The strings handed to \<open>onStatusUpdate\<close> (the source decorates them with pictographs):
  one constructor per call site.
\<close>

datatype payment_notice =
    NoticeStarting | NoticeOpening | NoticePopupBlocked | NoticeWaiting
  | NoticeApproved | NoticeFailed string | NoticeTimeout | NoticeError string

definition paymentMaxAttempts :: nat where
  "paymentMaxAttempts = 60"

text \<open>
  The \<open>while (attempts < maxAttempts)\<close> loop. \<open>attempts\<close> is the counter before its
  increment, which is also the index of the status poll. The result is \<open>Inl\<close> when a call
  threw (the enclosing \<open>catch\<close> handles it), else the returned boolean; with it the token and
  the notices issued. The five-second waits and the closing of the popup are not modelled.
\<close>

function paymentPoll ::
  "(nat \<Rightarrow> js_error + payment_status response) \<Rightarrow> nat \<Rightarrow> payment_token
     \<Rightarrow> (js_error + bool) \<times> payment_token \<times> payment_notice list" where
  "paymentPoll polls attempts paymentToken =
     (if attempts < paymentMaxAttempts then
        (case polls attempts of
           Inl e \<Rightarrow> (Inl e, paymentToken, [])
         | Inr statusResponse \<Rightarrow>
             if \<not> ok statusResponse then paymentPoll polls (Suc attempts) paymentToken
             else
               (case json statusResponse of
                  Inl e \<Rightarrow> (Inl e, paymentToken, [])
                | Inr statusData \<Rightarrow>
                    if pay_status statusData = ''completed'' \<and> truthy (pay_token statusData)
                    then (Inr True, pay_token statusData, [NoticeApproved])
                    else if pay_status statusData = ''failed''
                    then (Inr False, paymentToken,
                          [NoticeFailed (or_default (pay_error statusData) ''Unknown error'')])
                    else paymentPoll polls (Suc attempts) paymentToken))
      else (Inr False, paymentToken, [NoticeTimeout]))"
  by pat_completeness auto
termination
  by (relation "measure (\<lambda>(polls, attempts, paymentToken). paymentMaxAttempts - attempts)") auto

declare paymentPoll.simps [simp del]

text \<open>The body of the \<open>try\<close> block of \<open>handlePaymentRequired\<close>.\<close>

definition handlePaymentRequired_try ::
  "payment_env \<Rightarrow> payment_token \<Rightarrow> (js_error + bool) \<times> payment_token \<times> payment_notice list" where
  "handlePaymentRequired_try env paymentToken =
     (case session_fetch env of
        Inl e \<Rightarrow> (Inl e, paymentToken, [NoticeStarting])
      | Inr sessionResponse \<Rightarrow>
          if \<not> ok sessionResponse
          then (Inl (Error ''Failed to start payment session''), paymentToken, [NoticeStarting])
          else
            (case json sessionResponse of
               Inl e \<Rightarrow> (Inl e, paymentToken, [NoticeStarting])
             | Inr sessionData \<Rightarrow>
                 if \<not> popup_opened env
                 then (Inr False, paymentToken, [NoticeStarting, NoticeOpening, NoticePopupBlocked])
                 else
                   (case paymentPoll (status_fetch env) 0 paymentToken of
                      (r, tok, ns) \<Rightarrow> (r, tok, [NoticeStarting, NoticeOpening, NoticeWaiting] @ ns))))"

text \<open>\<open>handlePaymentRequired\<close>: the \<open>catch\<close> turns every thrown value into \<open>false\<close>.\<close>

definition handlePaymentRequired ::
  "payment_env \<Rightarrow> payment_token \<Rightarrow> bool \<times> payment_token \<times> payment_notice list" where
  "handlePaymentRequired env paymentToken =
     (case handlePaymentRequired_try env paymentToken of
        (Inl e, tok, ns) \<Rightarrow> (False, tok, ns @ [NoticeError (error_message e)])
      | (Inr b, tok, ns) \<Rightarrow> (b, tok, ns))"

section \<open>Tasks and the Text Extractor (agentMessageHandler.ts)\<close>

text \<open>
  The interface \<open>AgentTask\<close>. Fields that the code tests before use (\<open>task.artifacts\<close>,
  \<open>task.history\<close>, \<open>msg.parts\<close>) or that are declared optional are options.
\<close>

datatype task_state = Submitted | Working | InputRequired | Completed | Failed | Canceled

record part =
  kind :: string
  part_text :: string

record history_message =
  role :: string
  parts :: "part list option"

record artifact =
  artifact_kind :: string
  artifact_parts :: "part list option"
  artifact_text :: "string option"

record agent_task =
  task_id :: string
  task_context_id :: string
  status_state :: task_state
  status_timestamp :: string
  history :: "history_message list option"
  artifacts :: "artifact list option"
  metadata :: "(string \<times> string) list option"

text \<open>
  The inner loop over \<open>artifact.parts\<close> (lines 119--123); \<open>textParts\<close> is the array being
  pushed to.
\<close>

fun pushTextParts :: "part list \<Rightarrow> string list \<Rightarrow> string list" where
  "pushTextParts [] textParts = textParts"
| "pushTextParts (p # ps) textParts =
     pushTextParts ps
       (if kind p = ''text'' \<and> part_text p \<noteq> [] then textParts @ [part_text p] else textParts)"

text \<open>The loop over \<open>task.artifacts\<close> (lines 117--127).\<close>

fun pushArtifacts :: "artifact list \<Rightarrow> string list \<Rightarrow> string list" where
  "pushArtifacts [] textParts = textParts"
| "pushArtifacts (a # as) textParts =
     pushArtifacts as
       (case artifact_parts a of
          Some ps \<Rightarrow> pushTextParts ps textParts
        | None \<Rightarrow>
            if truthy (artifact_text a) then textParts @ [the (artifact_text a)] else textParts)"

text \<open>The loop over \<open>msg.parts\<close> with its early return (lines 137--141).\<close>

fun firstTextPart :: "part list \<Rightarrow> string option" where
  "firstTextPart [] = None"
| "firstTextPart (p # ps) =
     (if kind p = ''text'' \<and> part_text p \<noteq> [] then Some (part_text p) else firstTextPart ps)"

text \<open>
  The loop \<open>for (let i = task.history.length - 1; i >= 0; i--)\<close> (lines 133--144); the second
  argument is \<open>i + 1\<close>.
\<close>

fun scanHistory :: "history_message list \<Rightarrow> nat \<Rightarrow> string option" where
  "scanHistory h 0 = None"
| "scanHistory h (Suc i) =
     (let msg = h ! i
      in if role msg = ''assistant'' \<or> role msg = ''agent'' then
           (case parts msg of
              Some ps \<Rightarrow>
                (case firstTextPart ps of Some t \<Rightarrow> Some t | None \<Rightarrow> scanHistory h i)
            | None \<Rightarrow> scanHistory h i)
         else scanHistory h i)"

definition extractTextFromTask :: "agent_task \<Rightarrow> string" where
  "extractTextFromTask task =
     (let textParts =
            (case artifacts task of
               Some as \<Rightarrow> if length as > 0 then pushArtifacts as [] else []
             | None \<Rightarrow> [])
      in if length textParts > 0 then join ''\<newline>'' textParts
         else
           (case history task of
              Some h \<Rightarrow>
                (if length h > 0
                 then (case scanHistory h (length h) of Some t \<Rightarrow> t | None \<Rightarrow> [])
                 else [])
            | None \<Rightarrow> []))"

subsection \<open>The Text Extractor in the words of the specification\<close>

text \<open>
  "Every text-kind part across every artifact, in order", the data model describing an
  artifact as a sequence of parts.
\<close>

definition textKindParts :: "part list option \<Rightarrow> part list" where
  "textKindParts ps = filter (\<lambda>p. kind p = ''text'') (case ps of Some xs \<Rightarrow> xs | None \<Rightarrow> [])"

definition artifactTextParts :: "agent_task \<Rightarrow> part list" where
  "artifactTextParts task =
     concat (map (\<lambda>a. textKindParts (artifact_parts a))
       (case artifacts task of Some as \<Rightarrow> as | None \<Rightarrow> []))"

definition isAssistantMessage :: "history_message \<Rightarrow> bool" where
  "isAssistantMessage m = (role m = ''assistant'' \<or> role m = ''agent'')"

definition extract_spec :: "agent_task \<Rightarrow> string" where
  "extract_spec task =
     (if artifactTextParts task \<noteq> [] then join ''\<newline>'' (map part_text (artifactTextParts task))
      else
        (case find (\<lambda>m. isAssistantMessage m \<and> textKindParts (parts m) \<noteq> [])
                (rev (case history task of Some h \<Rightarrow> h | None \<Rightarrow> [])) of
           Some m \<Rightarrow> part_text (hd (textKindParts (parts m)))
         | None \<Rightarrow> []))"

text \<open>
  The same policy with the two refinements the code makes: a text counts only when it is
  non-empty, and an artifact without a \<open>parts\<close> array contributes its top-level \<open>text\<close>.
\<close>

definition nonEmptyTexts :: "part list \<Rightarrow> string list" where
  "nonEmptyTexts ps = filter (\<lambda>t. t \<noteq> []) (map part_text (filter (\<lambda>p. kind p = ''text'') ps))"

definition artifactTexts :: "artifact \<Rightarrow> string list" where
  "artifactTexts a =
     (case artifact_parts a of
        Some ps \<Rightarrow> nonEmptyTexts ps
      | None \<Rightarrow> (case artifact_text a of Some t \<Rightarrow> (if t \<noteq> [] then [t] else []) | None \<Rightarrow> []))"

definition messageTexts :: "history_message \<Rightarrow> string list" where
  "messageTexts m = (case parts m of Some ps \<Rightarrow> nonEmptyTexts ps | None \<Rightarrow> [])"

definition extract_amended :: "agent_task \<Rightarrow> string" where
  "extract_amended task =
     (let texts = concat (map artifactTexts (case artifacts task of Some as \<Rightarrow> as | None \<Rightarrow> []))
      in if texts \<noteq> [] then join ''\<newline>'' texts
         else
           (case find (\<lambda>m. isAssistantMessage m \<and> messageTexts m \<noteq> [])
                   (rev (case history task of Some h \<Rightarrow> h | None \<Rightarrow> [])) of
              Some m \<Rightarrow> hd (messageTexts m)
            | None \<Rightarrow> []))"

section \<open>Send/Poll Engine (agentMessageHandler.ts, sendAgentMessage)\<close>

text \<open>
  Modelled from the spec: the type \<open>MessageUpdate\<close> (module \<open>$lib/types/MessageUpdate\<close> is not
  among the sources). Of its variants the engine builds \<open>Status\<close> (with an optional message),
  \<open>TaskMetadata\<close> (task id, context id, status, optional reference task ids) and
  \<open>FinalAnswer\<close> (text, interrupted).
\<close>

datatype message_update_status = Started | Finished | ErrorStatus | KeepAlive

datatype message_update =
    Status message_update_status "string option"
  | TaskMetadata string string task_state "string list option"
  | FinalAnswer string bool

text \<open>The JSON-RPC envelope \<open>{ result }\<close> or \<open>{ error: { message } }\<close>.\<close>

record rpc_error =
  err_message :: "string option"

record rpc_reply =
  reply_error :: "rpc_error option"
  reply_result :: "agent_task option"

text \<open>
  One iteration of the poll loop sees the abort flag and the outcome of its \<open>tasks/get\<close> call.
\<close>

record poll_step =
  aborted :: bool
  poll_fetch :: "js_error + rpc_reply response"

text \<open>
  The outside world of one invocation: the answer to the first \<open>message/send\<close>, the payment
  challenge, the answer to the retried send, and what each poll iteration sees. The answers
  do not depend on the requests, so request bodies and headers are computed only where
  computing them changes the payment token.
\<close>

record env =
  send_fetch :: "js_error + rpc_reply response"
  payment :: payment_env
  retry_fetch :: "js_error + rpc_reply response"
  polls :: "nat \<Rightarrow> poll_step"

text \<open>
  Reading a property of \<open>undefined\<close> throws a \<open>TypeError\<close>; the wording of its message is
  the JavaScript engine's.
\<close>

definition undefinedRead :: js_error where
  "undefinedRead = Error ''Cannot read properties of undefined''"

text \<open>Lines 299--319: parsing the reply of the send call into the submitted task.\<close>

definition readSendResult :: "rpc_reply response \<Rightarrow> js_error + agent_task" where
  "readSendResult response =
     (case json response of
        Inl parseError \<Rightarrow>
          (case body_text response of
             Inl e \<Rightarrow> Inl e
           | Inr t \<Rightarrow> Inl (Error ''Failed to parse response''))
      | Inr result \<Rightarrow>
          (case reply_error result of
             Some err \<Rightarrow> Inl (Error (or_default (err_message err) ''Agent error''))
           | None \<Rightarrow>
               (case reply_result result of
                  None \<Rightarrow> Inl (Error ''Invalid response: missing result'')
                | Some task \<Rightarrow> Inr task)))"

text \<open>
  Lines 243--319: the send, the payment challenge on status 402 and the single retry.
\<close>

definition sendPhase :: "env \<Rightarrow> payment_token \<Rightarrow> (js_error + agent_task) \<times> payment_token" where
  "sendPhase e paymentToken =
     (case send_fetch e of
        Inl err \<Rightarrow> (Inl err, paymentToken)
      | Inr response \<Rightarrow>
          if status response = 402 then
            (case handlePaymentRequired (payment e) paymentToken of
               (paymentSuccess, tok1, notices) \<Rightarrow>
                 if paymentSuccess then
                   (case getPaymentHeaders tok1 of
                      (retryHeaders, tok2) \<Rightarrow>
                        (case retry_fetch e of
                           Inl err \<Rightarrow> (Inl err, tok2)
                         | Inr retry \<Rightarrow>
                             if \<not> ok retry then
                               (Inl (Error (''Agent request failed after payment: ''
                                      @ string_of_nat (status retry) @ '' - '' @ errorText retry)),
                                tok2)
                             else
                               (case getPaymentHeaders tok2 of
                                  (hdrs, tok3) \<Rightarrow> (readSendResult retry, tok3))))
                 else (Inl (Error ''Payment required but not completed''), tok1))
          else if \<not> ok response then
            (Inl (Error (''Agent request failed: ''
                   @ string_of_nat (status response) @ '' - '' @ errorText response)),
             paymentToken)
          else (readSendResult response, paymentToken))"

definition maxAttempts :: nat where
  "maxAttempts = 300"

text \<open>
  What one iteration of the poll loop does after its abort check and wait: either the loop
  goes on (\<open>Continue\<close>, with the updates yielded so far in this iteration), or the generator
  ends (\<open>Stop\<close>) by returning (\<open>Inr ()\<close>) or throwing (\<open>Inl\<close>), with the payment token it leaves.
\<close>

datatype loop_ctl =
    Continue "message_update list"
  | Stop "message_update list" "js_error + unit" payment_token

definition pollBody ::
  "poll_step \<Rightarrow> string \<Rightarrow> string \<Rightarrow> string list option \<Rightarrow> payment_token \<Rightarrow> loop_ctl" where
  "pollBody step submittedTaskId newContextId refs paymentToken =
     (if aborted step then Stop [] (Inl (Error ''Request aborted'')) paymentToken
      else
        (case poll_fetch step of
           Inl err \<Rightarrow> Stop [] (Inl err) paymentToken
         | Inr statusResponse \<Rightarrow>
             if \<not> ok statusResponse then Continue []
             else
               (case json statusResponse of
                  Inl err \<Rightarrow> Stop [] (Inl err) paymentToken
                | Inr statusResult \<Rightarrow>
                    (case reply_error statusResult of
                       Some err \<Rightarrow>
                         Stop [] (Inl (Error (or_default (err_message err) ''Task status error'')))
                           paymentToken
                     | None \<Rightarrow>
                         (case reply_result statusResult of
                            None \<Rightarrow> Stop [] (Inl undefinedRead) paymentToken
                          | Some currentTask \<Rightarrow>
                              (let taskState = status_state currentTask;
                                   md = TaskMetadata submittedTaskId newContextId taskState refs
                               in if taskState = Completed \<or> taskState = InputRequired then
                                    Stop [md, FinalAnswer (extractTextFromTask currentTask) False,
                                          Status Finished None]
                                      (Inr ())
                                      (if taskState = Completed then clearPaymentToken paymentToken
                                       else paymentToken)
                                  else if taskState = Failed then
                                    Stop [md]
                                      (Inl (Error (''Task failed: '' @
                                         or_default
                                           (case metadata currentTask of
                                              None \<Rightarrow> None
                                            | Some m \<Rightarrow> map_of m ''error'')
                                           ''Unknown error'')))
                                      (clearPaymentToken paymentToken)
                                  else if taskState = Canceled then
                                    Stop [md] (Inl (Error ''Task was canceled''))
                                      (clearPaymentToken paymentToken)
                                  else Continue [md]))))))"

text \<open>
  The loop \<open>for (let attempt = 0; attempt < maxAttempts; attempt++)\<close> and the \<open>throw\<close> that
  follows it. The result is the updates yielded, how the generator ends, and the token.
\<close>

function pollLoop ::
  "(nat \<Rightarrow> poll_step) \<Rightarrow> string \<Rightarrow> string \<Rightarrow> string list option \<Rightarrow> nat \<Rightarrow> payment_token
     \<Rightarrow> message_update list \<times> (js_error + unit) \<times> payment_token" where
  "pollLoop steps submittedTaskId newContextId refs attempt paymentToken =
     (if attempt < maxAttempts then
        (case pollBody (steps attempt) submittedTaskId newContextId refs paymentToken of
           Stop us r tok \<Rightarrow> (us, r, tok)
         | Continue us \<Rightarrow>
             (case pollLoop steps submittedTaskId newContextId refs (Suc attempt) paymentToken of
                (us', r, tok) \<Rightarrow> (us @ us', r, tok)))
      else ([], Inl (Error ''Task polling timeout''), paymentToken))"
  by pat_completeness auto
termination
  by (relation "measure (\<lambda>(steps, tid, cid, refs, attempt, tok). maxAttempts - attempt)") auto

declare pollLoop.simps [simp del]

text \<open>The result of draining the generator.\<close>

record run =
  updates :: "message_update list"
  outcome :: "js_error + unit"
  token_after :: payment_token

text \<open>The body of the \<open>try\<close> block (lines 242--416).\<close>

definition sendAgentMessage_try ::
  "env \<Rightarrow> string \<Rightarrow> string list option \<Rightarrow> payment_token
     \<Rightarrow> message_update list \<times> (js_error + unit) \<times> payment_token" where
  "sendAgentMessage_try e newContextId refs paymentToken =
     (case sendPhase e paymentToken of
        (Inl err, tok) \<Rightarrow> ([], Inl err, tok)
      | (Inr task, tok) \<Rightarrow>
          (case pollLoop (polls e) (task_id task) newContextId refs 0 tok of
             (us, r, tok') \<Rightarrow>
               (TaskMetadata (task_id task) newContextId (status_state task) refs # us, r, tok')))"

text \<open>
  \<open>sendAgentMessage\<close>. \<open>newTaskId\<close> and \<open>newCtxId\<close> are what \<open>generateId()\<close> returns for the
  task and the context; the abort signal is part of the environment. The property
  \<open>referenceTaskIds\<close> of the outgoing message exists only when the array is non-empty.
\<close>

definition sendAgentMessage ::
  "env \<Rightarrow> string \<Rightarrow> string \<Rightarrow> string \<Rightarrow> string option \<Rightarrow> string option \<Rightarrow> string option
     \<Rightarrow> string option \<Rightarrow> payment_token \<Rightarrow> run" where
  "sendAgentMessage e newTaskId newCtxId message contextId currentTaskId taskState replyToTaskId
       paymentToken =
     (case getPaymentHeaders paymentToken of
        (hdrs, tok0) \<Rightarrow>
          (case resolveTaskId newTaskId replyToTaskId currentTaskId taskState of
             (taskId, referenceTaskIds) \<Rightarrow>
               (let newContextId = deriveContextId newCtxId contextId;
                    refs = (if length referenceTaskIds > 0 then Some referenceTaskIds else None)
                in case sendAgentMessage_try e newContextId refs tok0 of
                     (us, Inr u, tok) \<Rightarrow>
                       \<lparr>updates = Status Started None # us, outcome = Inr u, token_after = tok\<rparr>
                   | (us, Inl err, tok) \<Rightarrow>
                       \<lparr>updates = Status Started None # us
                                    @ [Status ErrorStatus (Some (error_message err))],
                        outcome = Inl err, token_after = tok\<rparr>)))"

section \<open>Context previews (chat.ts, loadContexts)\<close>

text \<open>
  Modelled from the spec: the types \<open>Task\<close> and \<open>Context\<close> (module \<open>$lib/types/agent\<close> is
  not among the sources). The records hold the fields that \<open>loadContexts\<close> reads, optional
  where the code guards them with \<open>||\<close> or \<open>&&\<close>.
\<close>

record chat_part =
  cp_kind :: string
  cp_text :: "string option"

record chat_message =
  cm_role :: string
  cm_parts :: "chat_part list option"

record chat_status =
  cs_state :: string
  cs_timestamp :: "string option"

record chat_task =
  ct_id :: string
  ct_history :: "chat_message list option"
  ct_status :: "chat_status option"

record server_context =
  sc_context_id :: "string option"
  sc_id :: "string option"
  sc_task_count :: "nat option"
  sc_taskCount :: "nat option"
  sc_task_ids :: "string list option"
  sc_taskIds :: "string list option"

record chat_context =
  ctx_id :: "string option"
  ctx_context_id :: "string option"
  ctx_task_count :: nat
  ctx_taskCount :: nat
  ctx_task_ids :: "string list"
  ctx_taskIds :: "string list"
  ctx_timestamp :: int
  firstMessage :: string

text \<open>\<open>a || b\<close> on optional strings, and \<open>a || b || 0\<close> on optional numbers.\<close>

definition str_or :: "string option \<Rightarrow> string option \<Rightarrow> string option" where
  "str_or a b = (if truthy a then a else b)"

definition count_or :: "nat option \<Rightarrow> nat option \<Rightarrow> nat" where
  "count_or a b =
     (case a of
        Some (Suc n) \<Rightarrow> Suc n
      | _ \<Rightarrow> (case b of Some (Suc n) \<Rightarrow> Suc n | _ \<Rightarrow> 0))"

text \<open>\<open>a || b || []\<close> on optional arrays: an array, even an empty one, is truthy.\<close>

definition ids_or :: "string list option \<Rightarrow> string list option \<Rightarrow> string list" where
  "ids_or a b = (case a of Some xs \<Rightarrow> xs | None \<Rightarrow> (case b of Some ys \<Rightarrow> ys | None \<Rightarrow> []))"

text \<open>The \<open>map\<close> of lines 85--94; \<open>now\<close> is \<open>Date.now()\<close>.\<close>

definition transformContext :: "int \<Rightarrow> server_context \<Rightarrow> chat_context" where
  "transformContext now ctx =
     \<lparr>ctx_id = str_or (sc_context_id ctx) (sc_id ctx),
      ctx_context_id = str_or (sc_context_id ctx) (sc_id ctx),
      ctx_task_count = count_or (sc_task_count ctx) (sc_taskCount ctx),
      ctx_taskCount = count_or (sc_task_count ctx) (sc_taskCount ctx),
      ctx_task_ids = ids_or (sc_task_ids ctx) (sc_taskIds ctx),
      ctx_taskIds = ids_or (sc_task_ids ctx) (sc_taskIds ctx),
      ctx_timestamp = now,
      firstMessage = ''Loading...''\<rparr>"

text \<open>\<open>parts.filter(part => part.kind === 'text').map(part => part.text || '')\<close>.\<close>

definition chatTextParts :: "chat_part list option \<Rightarrow> string list" where
  "chatTextParts ps =
     map (\<lambda>p. or_default (cp_text p) [])
       (filter (\<lambda>p. cp_kind p = ''text'') (case ps of Some xs \<Rightarrow> xs | None \<Rightarrow> []))"

text \<open>
  The loop over \<open>history\<close> with its \<open>break\<close> (lines 102--113): the new value of
  \<open>ctx.firstMessage\<close>, if the loop assigns one. \<open>substring(0, 50)\<close> is \<open>take 50\<close>.
\<close>

fun previewOfHistory :: "chat_message list \<Rightarrow> string option" where
  "previewOfHistory [] = None"
| "previewOfHistory (msg # rest) =
     (if cm_role msg = ''user'' then
        (let textParts = chatTextParts (cm_parts msg)
         in if length textParts > 0 then Some (take 50 (textParts ! 0))
            else previewOfHistory rest)
      else previewOfHistory rest)"

text \<open>
  The body of the loop over the contexts (lines 97--121). \<open>getTask\<close> is
  \<open>agentAPI.getTask\<close>, which may throw, and \<open>getTime s\<close> is \<open>new Date(s).getTime()\<close>.
\<close>

definition loadPreview ::
  "(string \<Rightarrow> js_error + chat_task) \<Rightarrow> (string \<Rightarrow> int) \<Rightarrow> chat_context \<Rightarrow> chat_context" where
  "loadPreview getTask getTime ctx =
     (if length (ctx_taskIds ctx) > 0 then
        (case getTask (ctx_taskIds ctx ! 0) of
           Inl err \<Rightarrow> ctx
         | Inr task \<Rightarrow>
             (let ctx1 =
                    (case previewOfHistory
                            (case ct_history task of Some h \<Rightarrow> h | None \<Rightarrow> []) of
                       Some t \<Rightarrow> ctx\<lparr>firstMessage := t\<rparr>
                     | None \<Rightarrow> ctx)
              in case ct_status task of
                   Some st \<Rightarrow>
                     if truthy (cs_timestamp st)
                     then ctx1\<lparr>ctx_timestamp := getTime (the (cs_timestamp st))\<rparr>
                     else ctx1
                 | None \<Rightarrow> ctx1))
      else ctx)"

text \<open>
  \<open>loadContexts\<close>: the new content of the \<open>contexts\<close> store, or the message put into the
  \<open>error\<close> store when \<open>agentAPI.listContexts\<close> throws.
\<close>

definition loadContexts ::
  "(js_error + server_context list) \<Rightarrow> (string \<Rightarrow> js_error + chat_task) \<Rightarrow> int
     \<Rightarrow> (string \<Rightarrow> int) \<Rightarrow> string + chat_context list" where
  "loadContexts listContexts getTask now getTime =
     (case listContexts of
        Inl err \<Rightarrow> Inl ''Failed to load contexts''
      | Inr serverContexts \<Rightarrow>
          Inr (map (\<lambda>ctx. loadPreview getTask getTime (transformContext now ctx)) serverContexts))"

subsection \<open>The preview title in the words of the specification\<close>

text \<open>The tasks of a context that load, in the order of its task ids.\<close>

definition contextTasks :: "(string \<Rightarrow> js_error + chat_task) \<Rightarrow> chat_context \<Rightarrow> chat_task list" where
  "contextTasks getTask ctx =
     concat (map (\<lambda>tid. case getTask tid of Inl err \<Rightarrow> [] | Inr t \<Rightarrow> [t]) (ctx_taskIds ctx))"

definition taskTime :: "(string \<Rightarrow> int) \<Rightarrow> chat_task \<Rightarrow> int" where
  "taskTime getTime t =
     (case ct_status t of
        Some st \<Rightarrow> (case cs_timestamp st of Some ts \<Rightarrow> getTime ts | None \<Rightarrow> 0)
      | None \<Rightarrow> 0)"

text \<open>The earliest task by \<open>status.timestamp\<close> (the first one among equals).\<close>

fun earliestTask :: "(string \<Rightarrow> int) \<Rightarrow> chat_task list \<Rightarrow> chat_task option" where
  "earliestTask getTime [] = None"
| "earliestTask getTime (t # ts) =
     (case earliestTask getTime ts of
        None \<Rightarrow> Some t
      | Some t' \<Rightarrow> if taskTime getTime t \<le> taskTime getTime t' then Some t else Some t')"

text \<open>The first user-role text of a history, truncated to 50 characters.\<close>

definition firstUserText :: "chat_message list \<Rightarrow> string option" where
  "firstUserText h =
     (case concat (map (\<lambda>m. chatTextParts (cm_parts m)) (filter (\<lambda>m. cm_role m = ''user'') h)) of
        [] \<Rightarrow> None
      | t # ts \<Rightarrow> Some (take 50 t))"

definition title_spec ::
  "(string \<Rightarrow> js_error + chat_task) \<Rightarrow> (string \<Rightarrow> int) \<Rightarrow> chat_context \<Rightarrow> string option" where
  "title_spec getTask getTime ctx =
     (case earliestTask getTime (contextTasks getTask ctx) of
        None \<Rightarrow> None
      | Some t \<Rightarrow> firstUserText (case ct_history t of Some h \<Rightarrow> h | None \<Rightarrow> []))"

text \<open>
  The preview title as the code computes it: the first user-role text of the context's first
  listed task, and the placeholder when that task does not load or has no such text.
\<close>

definition title_amended :: "(string \<Rightarrow> js_error + chat_task) \<Rightarrow> chat_context \<Rightarrow> string" where
  "title_amended getTask ctx =
     (case ctx_taskIds ctx of
        [] \<Rightarrow> ''Loading...''
      | tid # rest \<Rightarrow>
          (case getTask tid of
             Inl err \<Rightarrow> ''Loading...''
           | Inr t \<Rightarrow>
               (case firstUserText (case ct_history t of Some h \<Rightarrow> h | None \<Rightarrow> []) of
                  Some title \<Rightarrow> title
                | None \<Rightarrow> ''Loading...'')))"

section \<open>Reading an update sequence\<close>

fun isTaskMetadata :: "message_update \<Rightarrow> bool" where
  "isTaskMetadata (TaskMetadata tid cid st refs) = True"
| "isTaskMetadata u = False"

fun isFinalAnswer :: "message_update \<Rightarrow> bool" where
  "isFinalAnswer (FinalAnswer t i) = True"
| "isFinalAnswer u = False"

section \<open>Reading a poll script\<close>

text \<open>
  The task snapshot that the poll of one iteration obtains from the remote agent, if it
  obtains one: the iteration is not aborted, the call answers with a success status, the
  body parses, and the envelope carries no error. This reads the environment only.
\<close>

definition polledTask :: "poll_step \<Rightarrow> agent_task option" where
  "polledTask step =
     (if aborted step then None
      else
        (case poll_fetch step of
           Inl err \<Rightarrow> None
         | Inr statusResponse \<Rightarrow>
             if \<not> ok statusResponse then None
             else
               (case json statusResponse of
                  Inl err \<Rightarrow> None
                | Inr statusResult \<Rightarrow>
                    (case reply_error statusResult of
                       Some err \<Rightarrow> None
                     | None \<Rightarrow> reply_result statusResult))))"

text \<open>
  The environment lets the loop go on past an iteration: no abort, and either a non-success
  answer or a snapshot whose state is \<open>submitted\<close> or \<open>working\<close>.
\<close>

definition continues :: "poll_step \<Rightarrow> bool" where
  "continues step =
     (\<not> aborted step \<and>
      (case poll_fetch step of
         Inl err \<Rightarrow> False
       | Inr statusResponse \<Rightarrow>
           \<not> ok statusResponse \<or>
           (case polledTask step of
              Some task \<Rightarrow> status_state task = Submitted \<or> status_state task = Working
            | None \<Rightarrow> False)))"

section \<open>Concrete tasks and environments\<close>

text \<open>The inputs at which the theorems below are instantiated.\<close>

definition task_AB :: agent_task where
  "task_AB =
     \<lparr>task_id = ''t1'', task_context_id = ''c1'', status_state = Completed,
      status_timestamp = ''2025-01-01T00:00:00Z'', history = Some [],
      artifacts = Some
        [\<lparr>artifact_kind = ''result'',
          artifact_parts = Some [\<lparr>kind = ''text'', part_text = ''A''\<rparr>], artifact_text = None\<rparr>,
         \<lparr>artifact_kind = ''result'',
          artifact_parts = Some [\<lparr>kind = ''text'', part_text = ''B''\<rparr>], artifact_text = None\<rparr>],
      metadata = None\<rparr>"

definition task_history_only :: agent_task where
  "task_history_only =
     \<lparr>task_id = ''t1'', task_context_id = ''c1'', status_state = InputRequired,
      status_timestamp = ''2025-01-01T00:00:00Z'',
      history = Some
        [\<lparr>role = ''user'', parts = Some [\<lparr>kind = ''text'', part_text = ''hi''\<rparr>]\<rparr>,
         \<lparr>role = ''assistant'', parts = Some [\<lparr>kind = ''text'', part_text = ''ok''\<rparr>]\<rparr>,
         \<lparr>role = ''assistant'', parts = Some [\<lparr>kind = ''text'', part_text = ''final''\<rparr>]\<rparr>],
      artifacts = Some [], metadata = None\<rparr>"

definition task_empty_part :: agent_task where
  "task_empty_part =
     \<lparr>task_id = ''t1'', task_context_id = ''c1'', status_state = Completed,
      status_timestamp = ''2025-01-01T00:00:00Z'',
      history = Some [\<lparr>role = ''agent'', parts = Some [\<lparr>kind = ''text'', part_text = ''h''\<rparr>]\<rparr>],
      artifacts = Some
        [\<lparr>artifact_kind = ''result'',
          artifact_parts = Some [\<lparr>kind = ''text'', part_text = []\<rparr>], artifact_text = None\<rparr>],
      metadata = None\<rparr>"

definition task_artifact_text :: agent_task where
  "task_artifact_text =
     \<lparr>task_id = ''t1'', task_context_id = ''c1'', status_state = Completed,
      status_timestamp = ''2025-01-01T00:00:00Z'', history = Some [],
      artifacts = Some
        [\<lparr>artifact_kind = ''result'',
          artifact_parts = Some [\<lparr>kind = ''text'', part_text = ''A''\<rparr>], artifact_text = None\<rparr>,
         \<lparr>artifact_kind = ''result'', artifact_parts = None, artifact_text = Some ''T''\<rparr>],
      metadata = None\<rparr>"

text \<open>An artifact without parts whose top-level text is the empty string.\<close>

definition task_empty_artifact_text :: agent_task where
  "task_empty_artifact_text =
     \<lparr>task_id = ''t1'', task_context_id = ''c1'', status_state = Completed,
      status_timestamp = ''2025-01-01T00:00:00Z'',
      history = Some [\<lparr>role = ''agent'', parts = Some [\<lparr>kind = ''text'', part_text = ''h''\<rparr>]\<rparr>],
      artifacts = Some
        [\<lparr>artifact_kind = ''result'', artifact_parts = None, artifact_text = Some []\<rparr>],
      metadata = None\<rparr>"

definition payment_completes :: "string \<Rightarrow> payment_env" where
  "payment_completes t =
     \<lparr>session_fetch =
        Inr \<lparr>status = 200,
             json = Inr \<lparr>session_id = Some ''s1'', browser_url = Some ''https://pay.example/s1''\<rparr>,
             body_text = Inr []\<rparr>,
      popup_opened = True,
      status_fetch =
        (\<lambda>k. Inr \<lparr>status = 200,
                   json = Inr \<lparr>pay_status = (if k = 0 then ''pending'' else ''completed''),
                              pay_token = (if k = 0 then None else Some t), pay_error = None\<rparr>,
                   body_text = Inr []\<rparr>)\<rparr>"

text \<open>A task in a given state whose history ends with the agent's answer.\<close>

definition task_in :: "task_state \<Rightarrow> agent_task" where
  "task_in st =
     \<lparr>task_id = ''t1'', task_context_id = ''c1'', status_state = st,
      status_timestamp = ''2025-01-01T00:00:00Z'',
      history = Some
        [\<lparr>role = ''user'', parts = Some [\<lparr>kind = ''text'', part_text = ''hi''\<rparr>]\<rparr>,
         \<lparr>role = ''agent'', parts = Some [\<lparr>kind = ''text'', part_text = ''final''\<rparr>]\<rparr>],
      artifacts = Some [], metadata = None\<rparr>"

definition reply_ok :: "agent_task \<Rightarrow> js_error + rpc_reply response" where
  "reply_ok t =
     Inr \<lparr>status = 200, json = Inr \<lparr>reply_error = None, reply_result = Some t\<rparr>,
          body_text = Inr []\<rparr>"

definition reply_503 :: "js_error + rpc_reply response" where
  "reply_503 =
     Inr \<lparr>status = 503, json = Inl (Error ''Unexpected token''),
          body_text = Inr ''Service Unavailable''\<rparr>"

definition no_payment :: payment_env where
  "no_payment =
     \<lparr>session_fetch = Inl (Error ''Failed to fetch''), popup_opened = False,
      status_fetch = (\<lambda>k. Inl (Error ''Failed to fetch''))\<rparr>"

text \<open>The remote task goes from submitted over working to completed across three polls.\<close>

definition env_completes :: env where
  "env_completes =
     \<lparr>send_fetch = reply_ok (task_in Submitted), payment = no_payment,
      retry_fetch = Inl (Error ''Failed to fetch''),
      polls = (\<lambda>k. \<lparr>aborted = False,
                     poll_fetch = reply_ok (task_in (if k = 0 then Submitted
                                                     else if k = 1 then Working else Completed))\<rparr>)\<rparr>"

text \<open>Every poll finds the task in the given state.\<close>

definition steps_all :: "task_state \<Rightarrow> nat \<Rightarrow> poll_step" where
  "steps_all st = (\<lambda>k. \<lparr>aborted = False, poll_fetch = reply_ok (task_in st)\<rparr>)"

definition env_all :: "task_state \<Rightarrow> env" where
  "env_all st =
     \<lparr>send_fetch = reply_ok (task_in Submitted), payment = no_payment,
      retry_fetch = Inl (Error ''Failed to fetch''), polls = steps_all st\<rparr>"

text \<open>
  The first poll fails, by a rejected \<open>fetch\<close> respectively by a 503 response; every later
  poll finds the task completed.
\<close>

definition steps_first :: "(js_error + rpc_reply response) \<Rightarrow> nat \<Rightarrow> poll_step" where
  "steps_first r =
     (\<lambda>k. \<lparr>aborted = False, poll_fetch = (if k = 0 then r else reply_ok (task_in Completed))\<rparr>)"

text \<open>
  An environment whose first poll is a rejected \<open>fetch\<close> and whose later polls find the task
  completed.
\<close>

definition env_poll_rejects :: env where
  "env_poll_rejects =
     \<lparr>send_fetch = reply_ok (task_in Submitted), payment = no_payment,
      retry_fetch = Inl (Error ''Failed to fetch''),
      polls = steps_first (Inl (Error ''Failed to fetch''))\<rparr>"

text \<open>
  A context listing the task \<open>t2\<close> before the task \<open>t1\<close>, where \<open>t1\<close> is the earlier one by
  \<open>status.timestamp\<close>.
\<close>

definition user_says :: "string \<Rightarrow> chat_message" where
  "user_says t = \<lparr>cm_role = ''user'', cm_parts = Some [\<lparr>cp_kind = ''text'', cp_text = Some t\<rparr>]\<rparr>"

definition chat_task_at :: "string \<Rightarrow> string \<Rightarrow> string \<Rightarrow> chat_task" where
  "chat_task_at tid ts t =
     \<lparr>ct_id = tid, ct_history = Some [user_says t],
      ct_status = Some \<lparr>cs_state = ''completed'', cs_timestamp = Some ts\<rparr>\<rparr>"

definition getTask_two :: "string \<Rightarrow> js_error + chat_task" where
  "getTask_two tid =
     (if tid = ''t1'' then Inr (chat_task_at ''t1'' ''2025-01-01T00:00:00Z'' ''first question'')
      else if tid = ''t2'' then Inr (chat_task_at ''t2'' ''2025-01-02T00:00:00Z'' ''second question'')
      else Inl (Error ''Task not found''))"

definition getTime_two :: "string \<Rightarrow> int" where
  "getTime_two s =
     (if s = ''2025-01-01T00:00:00Z'' then 1735689600000
      else if s = ''2025-01-02T00:00:00Z'' then 1735776000000 else 0)"

definition server_context_two :: server_context where
  "server_context_two =
     \<lparr>sc_context_id = Some ''c1'', sc_id = None, sc_task_count = Some 2, sc_taskCount = None,
      sc_task_ids = Some [''t2'', ''t1''], sc_taskIds = None\<rparr>"

section \<open>Properties of the Task Identity Resolver\<close>

text \<open>
  C2, as amended. The resolver applies four rules in priority order, where an identifier counts
  as present when it is a non-empty string (the code tests truthiness, so the empty string
  counts as absent): (1) a present \<open>replyToTaskId\<close> gives the generated id and
  \<open>[replyToTaskId]\<close>, whatever the other inputs; (2) else a task state of \<open>input-required\<close> or
  \<open>auth-required\<close> with a present \<open>currentTaskId\<close> gives \<open>currentTaskId\<close> and \<open>[]\<close>; (3) else
  a present \<open>currentTaskId\<close> gives the generated id and \<open>[currentTaskId]\<close>; (4) else the
  generated id and \<open>[]\<close>. Being a function of its arguments, the result is deterministic and
  nothing but the result is produced.
\<close>

theorem resolveTaskId_rules:
  "(truthy r \<longrightarrow> resolveTaskId g r c s = (g, [the r])) \<and>
   (\<not> truthy r \<and> (s = Some ''input-required'' \<or> s = Some ''auth-required'') \<and> truthy c \<longrightarrow>
      resolveTaskId g r c s = (the c, [])) \<and>
   (\<not> truthy r \<and> \<not> (s = Some ''input-required'' \<or> s = Some ''auth-required'') \<and> truthy c \<longrightarrow>
      resolveTaskId g r c s = (g, [the c])) \<and>
   (\<not> truthy r \<and> \<not> truthy c \<longrightarrow> resolveTaskId g r c s = (g, []))"
  by (auto simp: resolveTaskId_def Let_def)

theorem resolveTaskId_rules_witness:
  "resolveTaskId ''new'' (Some ''r1'') (Some ''t1'') (Some ''input-required'') = (''new'', [''r1'']) \<and>
   resolveTaskId ''new'' None (Some ''t1'') (Some ''auth-required'') = (''t1'', []) \<and>
   resolveTaskId ''new'' None (Some ''t1'') (Some ''completed'') = (''new'', [''t1'']) \<and>
   resolveTaskId ''new'' None None (Some ''input-required'') = (''new'', [])"
  using resolveTaskId_rules [where r = "Some ''r1''" and g = "''new''" and c = "Some ''t1''"
          and s = "Some ''input-required''"]
        resolveTaskId_rules [where r = None and g = "''new''" and c = "Some ''t1''"
          and s = "Some ''auth-required''"]
        resolveTaskId_rules [where r = None and g = "''new''" and c = "Some ''t1''"
          and s = "Some ''completed''"]
        resolveTaskId_rules [where r = None and g = "''new''" and c = None
          and s = "Some ''input-required''"]
  by simp

text \<open>
  C2 as stated fails when \<open>replyToTaskId\<close> is the empty string: it is present, yet the
  open task is continued and nothing is referenced.
\<close>

theorem resolveTaskId_empty_reply_counterexample:
  "resolveTaskId ''new'' (Some []) (Some ''t1'') (Some ''input-required'')
     \<noteq> resolver_spec ''new'' (Some []) (Some ''t1'') (Some ''input-required'')"
  by (simp add: resolveTaskId_def resolver_spec_def)

text \<open>
  The decision in chat.ts is the same one when \<open>isNonTerminalState\<close> holds of exactly
  \<open>input-required\<close> and \<open>auth-required\<close>.
\<close>

lemma sendMessage_taskId_agrees:
  "sendMessage_taskId (\<lambda>st. st = ''input-required'' \<or> st = ''auth-required'') g r c s
     = resolveTaskId g r c s"
  by (cases s) (auto simp: sendMessage_taskId_def resolveTaskId_def Let_def)

section \<open>Properties of the context-id derivation\<close>

lemma replicate_8: "replicate 8 x = [x, x, x, x, x, x, x, x]"
  by (simp add: numeral_eq_Suc)

text \<open>
  C8, as amended. The derivation maps a string of length exactly 24 to that string
  right-padded with \<open>0\<close> to length 32 and a non-empty string of any other length to itself;
  the empty string, like an absent id, is replaced by the generated id. The derivation is
  idempotent on every input, given that generated ids are non-empty and not 24 characters
  long (a UUID has 36).
\<close>

theorem deriveContextId_cases:
  "(c \<noteq> [] \<longrightarrow>
      deriveContextId g (Some c) = (if length c = 24 then c @ replicate 8 (CHR ''0'') else c)) \<and>
   (length c = 24 \<longrightarrow> length (deriveContextId g (Some c)) = 32) \<and>
   deriveContextId g (Some []) = g \<and> deriveContextId g None = g \<and>
   (g \<noteq> [] \<and> length g \<noteq> 24 \<longrightarrow>
      deriveContextId g' (Some (deriveContextId g x)) = deriveContextId g x)"
  by (cases x) (auto simp: deriveContextId_def padEnd_def)

theorem deriveContextId_cases_witness:
  "deriveContextId ''00000000-0000-4000-8000-000000000000'' (Some ''0123456789abcdef01234567'')
     = ''0123456789abcdef0123456700000000'' \<and>
   deriveContextId ''11111111-0000-4000-8000-000000000000''
       (Some (deriveContextId ''00000000-0000-4000-8000-000000000000'' (Some [])))
     = deriveContextId ''00000000-0000-4000-8000-000000000000'' (Some [])"
  using deriveContextId_cases [where c = "''0123456789abcdef01234567''"
          and g = "''00000000-0000-4000-8000-000000000000''"
          and g' = "''11111111-0000-4000-8000-000000000000''" and x = "Some []"]
  by (auto simp: replicate_8)

text \<open>
  C8 as stated fails at the empty string, whose length is not 24 and which is not passed
  through.
\<close>

theorem deriveContextId_empty_counterexample:
  "deriveContextId ''00000000-0000-4000-8000-000000000000'' (Some []) \<noteq> contextId_spec []"
  by (simp add: deriveContextId_def contextId_spec_def)

section \<open>Properties of the Text Extractor\<close>

text \<open>The loops of \<open>extractTextFromTask\<close> compute what the list functions describe.\<close>

lemma pushTextParts_append: "pushTextParts ps acc = acc @ nonEmptyTexts ps"
  by (induction ps arbitrary: acc) (auto simp: nonEmptyTexts_def)

lemma pushArtifacts_append: "pushArtifacts as acc = acc @ concat (map artifactTexts as)"
  by (induction as arbitrary: acc)
     (auto simp: artifactTexts_def pushTextParts_append split: option.splits)

lemma firstTextPart_nonEmptyTexts:
  "firstTextPart ps = (case nonEmptyTexts ps of [] \<Rightarrow> None | t # ts \<Rightarrow> Some t)"
  by (induction ps) (auto simp: nonEmptyTexts_def)

lemma scanHistory_find:
  "n \<le> length h \<Longrightarrow>
   scanHistory h n =
     map_option (\<lambda>m. hd (messageTexts m))
       (find (\<lambda>m. isAssistantMessage m \<and> messageTexts m \<noteq> []) (rev (take n h)))"
proof (induction n)
  case 0
  then show ?case by simp
next
  case (Suc i)
  then have i: "i < length h" and ih: "scanHistory h i =
     map_option (\<lambda>m. hd (messageTexts m))
       (find (\<lambda>m. isAssistantMessage m \<and> messageTexts m \<noteq> []) (rev (take i h)))"
    by simp_all
  have split: "rev (take (Suc i) h) = h ! i # rev (take i h)"
    using i by (simp add: take_Suc_conv_app_nth)
  show ?case
    unfolding split
    by (simp add: ih Let_def isAssistantMessage_def messageTexts_def firstTextPart_nonEmptyTexts
             split: option.splits list.splits)
qed

lemma extractTextFromTask_refines: "extractTextFromTask task = extract_amended task"
proof -
  have arts: "(case artifacts task of Some as \<Rightarrow> if length as > 0 then pushArtifacts as [] else []
                | None \<Rightarrow> [])
              = concat (map artifactTexts (case artifacts task of Some as \<Rightarrow> as | None \<Rightarrow> []))"
    by (simp add: pushArtifacts_append split: option.splits)
  have hist: "(case history task of
                 Some h \<Rightarrow> (if length h > 0
                            then (case scanHistory h (length h) of Some t \<Rightarrow> t | None \<Rightarrow> [])
                            else [])
               | None \<Rightarrow> [])
              = (case find (\<lambda>m. isAssistantMessage m \<and> messageTexts m \<noteq> [])
                        (rev (case history task of Some h \<Rightarrow> h | None \<Rightarrow> [])) of
                   Some m \<Rightarrow> hd (messageTexts m) | None \<Rightarrow> [])"
    by (simp add: scanHistory_find split: option.splits)
  show ?thesis
    unfolding extractTextFromTask_def extract_amended_def arts hist
    by (simp add: Let_def)
qed

text \<open>
  C7, as amended. For every task snapshot the extractor returns the newline-join of the
  non-empty texts of the text-kind parts of all artifacts, in order, an artifact without a
  parts array contributing its non-empty top-level text, when there is at least one such text;
  otherwise the first non-empty text of a text-kind part of the most recent assistant- or
  agent-role history message that has one (a single part, not a join); otherwise the empty
  string. Two artifacts with the text parts A and B give A, newline, B; the history
  user:hi, assistant:ok, assistant:final without artifacts gives final.
\<close>

theorem extractTextFromTask_policy: "extractTextFromTask task = extract_amended task"
  by (rule extractTextFromTask_refines)

theorem extractTextFromTask_policy_witness:
  "extractTextFromTask task_AB = ''A\<newline>B'' \<and> extractTextFromTask task_history_only = ''final''"
  using extractTextFromTask_policy [of task_AB] extractTextFromTask_policy [of task_history_only]
  by (simp add: extract_amended_def task_AB_def task_history_only_def artifactTexts_def
        nonEmptyTexts_def messageTexts_def isAssistantMessage_def)

text \<open>
  C7 as stated fails on an artifact whose only text-kind part has the empty text: such a
  part exists, so the join (the empty string) is due, but the code falls back to the history.
\<close>

theorem extractTextFromTask_empty_part_counterexample:
  "extractTextFromTask task_empty_part = ''h'' \<and> extract_spec task_empty_part = []"
  by (simp add: extractTextFromTask_def extract_spec_def task_empty_part_def artifactTextParts_def
        textKindParts_def isAssistantMessage_def)

lemma artifactTexts_text_only:
  "artifact_parts a = None \<Longrightarrow> artifact_text a = Some t \<Longrightarrow>
   artifactTexts a = artifactTexts (a\<lparr>artifact_parts := Some [\<lparr>kind = ''text'', part_text = t\<rparr>]\<rparr>)"
  by (simp add: artifactTexts_def nonEmptyTexts_def)

text \<open>
  C10, as amended. When an artifact has no parts array but carries a top-level text, the
  extractor returns what it returns for the same task with that artifact given the single
  text-kind part holding this text. A non-empty text stands, at the artifact's position, in
  the newline-joined result; an empty text is skipped, as an empty text-kind part is, and the
  result is that of the task without the artifact.
\<close>

theorem extractTextFromTask_artifact_text:
  assumes "artifacts task = Some (pre @ a # post)"
      and "artifact_parts a = None" and "artifact_text a = Some t"
  shows "extractTextFromTask task =
           extractTextFromTask
             (task\<lparr>artifacts :=
                Some (pre @ a\<lparr>artifact_parts := Some [\<lparr>kind = ''text'', part_text = t\<rparr>]\<rparr> # post)\<rparr>)
         \<and> (t \<noteq> [] \<longrightarrow>
              extractTextFromTask task =
                join ''\<newline>'' (concat (map artifactTexts pre) @ [t] @ concat (map artifactTexts post)))
         \<and> (t = [] \<longrightarrow>
              extractTextFromTask task = extractTextFromTask (task\<lparr>artifacts := Some (pre @ post)\<rparr>))"
proof -
  have "artifactTexts a = (if t \<noteq> [] then [t] else [])"
    using assms(2,3) by (simp add: artifactTexts_def)
  then show ?thesis
    using assms artifactTexts_text_only [of a t]
    by (simp add: extractTextFromTask_refines extract_amended_def Let_def)
qed

theorem extractTextFromTask_artifact_text_witness:
  "artifacts task_artifact_text =
     Some ([\<lparr>artifact_kind = ''result'',
             artifact_parts = Some [\<lparr>kind = ''text'', part_text = ''A''\<rparr>],
             artifact_text = None\<rparr>]
           @ \<lparr>artifact_kind = ''result'', artifact_parts = None, artifact_text = Some ''T''\<rparr> # [])
   \<and> extractTextFromTask task_artifact_text = ''A\<newline>T''"
proof -
  let ?pre = "[\<lparr>artifact_kind = ''result'',
                artifact_parts = Some [\<lparr>kind = ''text'', part_text = ''A''\<rparr>],
                artifact_text = None\<rparr>]"
  let ?a = "\<lparr>artifact_kind = ''result'', artifact_parts = None, artifact_text = Some ''T''\<rparr>"
  have shape: "artifacts task_artifact_text = Some (?pre @ ?a # [])"
    by (simp add: task_artifact_text_def)
  have no_parts: "artifact_parts ?a = None" and top_text: "artifact_text ?a = Some ''T''"
    by simp_all
  have "extractTextFromTask task_artifact_text =
          join ''\<newline>'' (concat (map artifactTexts ?pre) @ [''T''] @ concat (map artifactTexts []))"
    using extractTextFromTask_artifact_text [OF shape no_parts top_text] by blast
  then have "extractTextFromTask task_artifact_text = ''A\<newline>T''"
    by (simp add: artifactTexts_def nonEmptyTexts_def)
  with shape show ?thesis by blast
qed

text \<open>
  C10 as stated fails when the top-level text is the empty string: the artifact has no parts
  array and carries a text, yet the text is not taken into a joined result and the extractor
  falls back to the history.
\<close>

theorem extractTextFromTask_empty_artifact_text_counterexample:
  "artifacts task_empty_artifact_text =
     Some ([] @ \<lparr>artifact_kind = ''result'', artifact_parts = None, artifact_text = Some []\<rparr> # []) \<and>
   extractTextFromTask task_empty_artifact_text = ''h'' \<and>
   extractTextFromTask task_empty_artifact_text \<noteq>
     join ''\<newline>'' (concat (map artifactTexts []) @ [[]] @ concat (map artifactTexts []))"
  by (simp add: extractTextFromTask_def task_empty_artifact_text_def)

section \<open>Properties of the Payment Challenge Handler\<close>

text \<open>
  C6, as amended. On a payment-status poll returning \<open>completed\<close> with a non-empty token, the
  token is stored as the process-wide payment token as received, without validation, and the
  handler's loop returns true. Validation is done by \<open>getPaymentHeaders\<close> on the trimmed
  token: when the trimmed token has a non-ASCII character the held token is cleared and the
  headers are empty; otherwise the headers are \<open>X-PAYMENT\<close> with the trimmed token and the
  token is kept. When no token, or the empty string, is held the headers are empty.
\<close>

theorem payment_token_handling:
  "(attempts < paymentMaxAttempts \<and> sf attempts = Inr r \<and> ok r \<and> json r = Inr d \<and>
    pay_status d = ''completed'' \<and> pay_token d = Some t \<and> t \<noteq> [] \<longrightarrow>
      paymentPoll sf attempts tok = (Inr True, Some t, [NoticeApproved])) \<and>
   (t \<noteq> [] \<longrightarrow>
      getPaymentHeaders (Some t) =
        (if isAscii (trim t) then ([(''X-PAYMENT'', trim t)], Some t) else ([], None))) \<and>
   getPaymentHeaders (Some []) = ([], Some []) \<and>
   getPaymentHeaders None = ([], None)"
  by (auto simp: paymentPoll.simps [of sf attempts] getPaymentHeaders_def Let_def)

lemma trim_tok123: "trim ''tok123'' = ''tok123''"
  by (simp add: trim_def isWhiteSpace_def)

theorem payment_token_handling_witness:
  "paymentPoll (status_fetch (payment_completes ''tok123'')) 1 None
     = (Inr True, Some ''tok123'', [NoticeApproved]) \<and>
   getPaymentHeaders (Some ''tok123'') = ([(''X-PAYMENT'', ''tok123'')], Some ''tok123'')"
  using payment_token_handling
    [where attempts = 1 and sf = "status_fetch (payment_completes ''tok123'')"
       and r = "\<lparr>status = 200,
                  json = Inr \<lparr>pay_status = ''completed'', pay_token = Some ''tok123'',
                             pay_error = None\<rparr>,
                  body_text = Inr []\<rparr>"
       and d = "\<lparr>pay_status = ''completed'', pay_token = Some ''tok123'', pay_error = None\<rparr>"
       and t = "''tok123''" and tok = None]
  by (simp add: payment_completes_def paymentMaxAttempts_def ok_def trim_tok123 isAscii_def)

text \<open>
  C6 as stated fails on a completed poll with a non-ASCII token: the handler stores it
  without validating it and reports success, and \<open>hasPaymentToken\<close> holds of it.
\<close>

theorem payment_token_unvalidated_counterexample:
  "handlePaymentRequired (payment_completes [CHR 0xE9]) None
     = (True, Some [CHR 0xE9], [NoticeStarting, NoticeOpening, NoticeWaiting, NoticeApproved]) \<and>
   hasPaymentToken (Some [CHR 0xE9]) \<and> \<not> isAscii [CHR 0xE9]"
  by (simp add: handlePaymentRequired_def handlePaymentRequired_try_def payment_completes_def
        paymentPoll.simps [of _ 0] paymentPoll.simps [of _ "Suc 0"] paymentMaxAttempts_def ok_def
        hasPaymentToken_def isAscii_def)

section \<open>Properties of the Send/Poll Engine\<close>

text \<open>What one iteration of the poll loop can yield, by the way it ends.\<close>

lemma pollBody_Continue:
  "pollBody step tid cid refs tok = Continue us \<Longrightarrow>
     us = [] \<or> (\<exists>st. us = [TaskMetadata tid cid st refs] \<and> (st = Submitted \<or> st = Working))"
  by (cases "status_state (the (reply_result (projr (json (projr (poll_fetch step))))))")
     (auto simp: pollBody_def Let_def split: if_splits sum.splits option.splits)

lemma pollBody_Stop_Inr:
  "pollBody step tid cid refs tok = Stop us (Inr u) tok' \<Longrightarrow>
     \<exists>st ans. (st = Completed \<or> st = InputRequired) \<and>
        us = [TaskMetadata tid cid st refs, FinalAnswer ans False, Status Finished None] \<and>
        tok' = (if st = Completed then None else tok)"
  by (auto simp: pollBody_def Let_def clearPaymentToken_def
           split: if_splits sum.splits option.splits)

lemma pollBody_Stop_Inl:
  "pollBody step tid cid refs tok = Stop us (Inl err) tok' \<Longrightarrow>
     (us = [] \<and> tok' = tok) \<or>
     (\<exists>st. (st = Failed \<or> st = Canceled) \<and> us = [TaskMetadata tid cid st refs] \<and> tok' = None)"
  by (auto simp: pollBody_def Let_def clearPaymentToken_def
           split: if_splits sum.splits option.splits)

lemma pollLoop_Inr:
  "pollLoop steps tid cid refs attempt tok = (us, Inr u, tok') \<Longrightarrow>
     \<exists>mds ans. us = mds @ [FinalAnswer ans False, Status Finished None] \<and>
        list_all isTaskMetadata mds"
proof (induction steps tid cid refs attempt tok arbitrary: us tok' rule: pollLoop.induct)
  case (1 steps tid cid refs attempt tok)
  from "1.prems" have lt: "attempt < maxAttempts"
    by (simp add: pollLoop.simps [of steps tid cid refs attempt tok] split: if_splits)
  show ?case
  proof (cases "pollBody (steps attempt) tid cid refs tok")
    case (Continue vs)
    obtain ws r t where rest: "pollLoop steps tid cid refs (Suc attempt) tok = (ws, r, t)"
      by (cases "pollLoop steps tid cid refs (Suc attempt) tok")
    from "1.prems" lt Continue rest have us: "us = vs @ ws" and r: "r = Inr u"
      by (simp_all add: pollLoop.simps [of steps tid cid refs attempt tok])
    from "1.IH" [OF lt Continue, of ws t] rest r
    obtain mds ans where ws: "ws = mds @ [FinalAnswer ans False, Status Finished None]"
      and mds: "list_all isTaskMetadata mds"
      by auto
    from pollBody_Continue [OF Continue] have "list_all isTaskMetadata vs"
      by auto
    with us ws mds show ?thesis
      by (intro exI [of _ "vs @ mds"] exI [of _ ans]) simp
  next
    case (Stop vs r t)
    from "1.prems" lt Stop have "us = vs" and "r = Inr u"
      by (simp_all add: pollLoop.simps [of steps tid cid refs attempt tok])
    with Stop pollBody_Stop_Inr [of "steps attempt" tid cid refs tok vs u t]
    obtain st ans where "us = [TaskMetadata tid cid st refs] @ [FinalAnswer ans False, Status Finished None]"
      by auto
    then show ?thesis
      by (intro exI [of _ "[TaskMetadata tid cid st refs]"] exI [of _ ans]) simp
  qed
qed


text \<open>The poll loop against the script: what an obtained snapshot makes the iteration do.\<close>

lemma pollBody_polledTask:
  assumes "polledTask step = Some task"
  shows "pollBody step tid cid refs tok =
    (if status_state task = Completed then
       Stop [TaskMetadata tid cid Completed refs, FinalAnswer (extractTextFromTask task) False,
             Status Finished None] (Inr ()) None
     else if status_state task = InputRequired then
       Stop [TaskMetadata tid cid InputRequired refs, FinalAnswer (extractTextFromTask task) False,
             Status Finished None] (Inr ()) tok
     else if status_state task = Failed then
       Stop [TaskMetadata tid cid Failed refs]
         (Inl (Error (''Task failed: '' @
            or_default (case metadata task of None \<Rightarrow> None | Some m \<Rightarrow> map_of m ''error'')
              ''Unknown error''))) None
     else if status_state task = Canceled then
       Stop [TaskMetadata tid cid Canceled refs] (Inl (Error ''Task was canceled'')) None
     else Continue [TaskMetadata tid cid (status_state task) refs])"
  using assms
  by (auto simp: polledTask_def pollBody_def Let_def clearPaymentToken_def
           split: if_splits sum.splits option.splits)

lemma pollBody_continues:
  "continues step \<longleftrightarrow> (\<exists>us. pollBody step tid cid refs tok = Continue us)"
  by (cases "status_state (the (reply_result (projr (json (projr (poll_fetch step))))))")
     (auto simp: continues_def polledTask_def pollBody_def Let_def
           split: if_splits sum.splits option.splits)

lemma pollBody_changes_token:
  assumes "pollBody step tid cid refs tok = Stop us r tok'" and "tok' \<noteq> tok"
  shows "\<exists>task. polledTask step = Some task \<and>
           (status_state task = Completed \<or> status_state task = Failed \<or>
            status_state task = Canceled)"
  using assms
  by (auto simp: polledTask_def pollBody_def Let_def clearPaymentToken_def
           split: if_splits sum.splits option.splits)

lemma pollLoop_skip:
  assumes "\<forall>j. attempt \<le> j \<and> j < attempt + n \<longrightarrow> continues (steps j)"
      and "attempt + n \<le> maxAttempts"
  shows "\<exists>pre. pollLoop steps tid cid refs attempt tok =
           (case pollLoop steps tid cid refs (attempt + n) tok of
              (us, r, t) \<Rightarrow> (pre @ us, r, t))"
  using assms
proof (induction n arbitrary: attempt)
  case 0
  show ?case by (intro exI [of _ "[]"]) (simp split: prod.splits)
next
  case (Suc n)
  from Suc.prems have here: "continues (steps attempt)" and lt: "attempt < maxAttempts"
    by auto
  from here obtain vs where body: "pollBody (steps attempt) tid cid refs tok = Continue vs"
    using pollBody_continues [of "steps attempt" tid cid refs tok] by blast
  from Suc.prems have "\<forall>j. Suc attempt \<le> j \<and> j < Suc attempt + n \<longrightarrow> continues (steps j)"
    and "Suc attempt + n \<le> maxAttempts"
    by auto
  from Suc.IH [OF this] obtain pre where
    rest: "pollLoop steps tid cid refs (Suc attempt) tok =
             (case pollLoop steps tid cid refs (Suc attempt + n) tok of
                (us, r, t) \<Rightarrow> (pre @ us, r, t))"
    by blast
  show ?case
    by (intro exI [of _ "vs @ pre"])
       (simp add: pollLoop.simps [of steps tid cid refs attempt tok] lt body rest
             split: prod.splits)
qed

lemma pollLoop_reaches:
  assumes "attempt \<le> k" and "k < maxAttempts"
      and "\<forall>j. attempt \<le> j \<and> j < k \<longrightarrow> continues (steps j)"
      and "pollBody (steps k) tid cid refs tok = Stop us r tok'"
  shows "\<exists>pre. pollLoop steps tid cid refs attempt tok = (pre @ us, r, tok')"
proof -
  from assms(1) obtain n where k: "k = attempt + n"
    using le_Suc_ex by blast
  from pollLoop_skip [of attempt n steps tid cid refs tok] assms(2,3) k
  obtain pre where "pollLoop steps tid cid refs attempt tok =
           (case pollLoop steps tid cid refs k tok of (us, r, t) \<Rightarrow> (pre @ us, r, t))"
    by auto
  moreover have "pollLoop steps tid cid refs k tok = (us, r, tok')"
    by (simp add: pollLoop.simps [of steps tid cid refs k tok] assms(2,4))
  ultimately show ?thesis by simp
qed

lemma pollLoop_token_changed:
  "pollLoop steps tid cid refs attempt tok = (us, r, tok') \<Longrightarrow> tok' \<noteq> tok \<Longrightarrow>
     \<exists>k task. attempt \<le> k \<and> k < maxAttempts \<and>
       (\<forall>j. attempt \<le> j \<and> j < k \<longrightarrow> continues (steps j)) \<and>
       polledTask (steps k) = Some task \<and>
       (status_state task = Completed \<or> status_state task = Failed \<or>
        status_state task = Canceled)"
proof (induction steps tid cid refs attempt tok arbitrary: us r rule: pollLoop.induct)
  case (1 steps tid cid refs attempt tok)
  from "1.prems" have lt: "attempt < maxAttempts"
    by (auto simp: pollLoop.simps [of steps tid cid refs attempt tok] split: if_splits)
  show ?case
  proof (cases "pollBody (steps attempt) tid cid refs tok")
    case (Continue vs)
    obtain ws r2 t where rest: "pollLoop steps tid cid refs (Suc attempt) tok = (ws, r2, t)"
      by (cases "pollLoop steps tid cid refs (Suc attempt) tok")
    from "1.prems" lt Continue rest have t: "t = tok'"
      by (simp add: pollLoop.simps [of steps tid cid refs attempt tok])
    from "1.IH" [OF lt Continue, of ws r2] rest t "1.prems"(2)
    obtain k task where k: "Suc attempt \<le> k" "k < maxAttempts"
      "\<forall>j. Suc attempt \<le> j \<and> j < k \<longrightarrow> continues (steps j)"
      "polledTask (steps k) = Some task"
      "status_state task = Completed \<or> status_state task = Failed \<or> status_state task = Canceled"
      by blast
    have here: "continues (steps attempt)"
      using pollBody_continues [of "steps attempt" tid cid refs tok] Continue by blast
    have "\<forall>j. attempt \<le> j \<and> j < k \<longrightarrow> continues (steps j)"
    proof (intro allI impI)
      fix j assume "attempt \<le> j \<and> j < k"
      then show "continues (steps j)"
        using here k(3) by (cases "j = attempt") auto
    qed
    with k show ?thesis
      by (intro exI [of _ k] exI [of _ task]) simp
  next
    case (Stop vs r2 t)
    from "1.prems" lt Stop have "t = tok'"
      by (simp add: pollLoop.simps [of steps tid cid refs attempt tok])
    with Stop "1.prems"(2) pollBody_changes_token [of "steps attempt" tid cid refs tok vs r2 tok']
    obtain task where "polledTask (steps attempt) = Some task"
      "status_state task = Completed \<or> status_state task = Failed \<or> status_state task = Canceled"
      by blast
    with lt show ?thesis
      by (intro exI [of _ attempt] exI [of _ task]) auto
  qed
qed

text \<open>The generator around its \<open>try\<close> block.\<close>

lemma sendAgentMessage_try_Inr:
  assumes "sendAgentMessage_try e cid refs tok = (us, Inr u, tok')"
  shows "\<exists>mds ans. us = mds @ [FinalAnswer ans False, Status Finished None] \<and>
           list_all isTaskMetadata mds"
proof -
  from assms obtain task tok1 ws where sent: "sendPhase e tok = (Inr task, tok1)"
    and loop: "pollLoop (polls e) (task_id task) cid refs 0 tok1 = (ws, Inr u, tok')"
    and us: "us = TaskMetadata (task_id task) cid (status_state task) refs # ws"
    by (auto simp: sendAgentMessage_try_def split: prod.splits sum.splits)
  from pollLoop_Inr [OF loop] obtain mds ans
    where "ws = mds @ [FinalAnswer ans False, Status Finished None]" "list_all isTaskMetadata mds"
    by blast
  with us show ?thesis
    by (intro exI [of _ "TaskMetadata (task_id task) cid (status_state task) refs # mds"]
              exI [of _ ans]) simp
qed

lemma sendAgentMessage_explicit:
  "sendAgentMessage e nt nc msg ctx cur st rep tok =
     (case sendAgentMessage_try e (deriveContextId nc ctx)
             (if length (snd (resolveTaskId nt rep cur st)) > 0
              then Some (snd (resolveTaskId nt rep cur st)) else None)
             (snd (getPaymentHeaders tok)) of
        (us, r, tok') \<Rightarrow>
          (case r of
             Inr u \<Rightarrow> \<lparr>updates = Status Started None # us, outcome = Inr u, token_after = tok'\<rparr>
           | Inl err \<Rightarrow>
               \<lparr>updates = Status Started None # us @ [Status ErrorStatus (Some (error_message err))],
                outcome = Inl err, token_after = tok'\<rparr>))"
  by (simp add: sendAgentMessage_def Let_def split: prod.splits sum.splits)

lemma sendAgentMessage_unfold:
  "\<exists>cid refs tok0 us r tok'.
     sendAgentMessage_try e cid refs tok0 = (us, r, tok') \<and>
     sendAgentMessage e nt nc msg ctx cur st rep tok =
       (case r of
          Inr u \<Rightarrow> \<lparr>updates = Status Started None # us, outcome = Inr u, token_after = tok'\<rparr>
        | Inl err \<Rightarrow>
            \<lparr>updates = Status Started None # us @ [Status ErrorStatus (Some (error_message err))],
             outcome = Inl err, token_after = tok'\<rparr>)"
proof -
  let ?cid = "deriveContextId nc ctx"
  let ?refs = "if length (snd (resolveTaskId nt rep cur st)) > 0
               then Some (snd (resolveTaskId nt rep cur st)) else None"
  let ?tok0 = "snd (getPaymentHeaders tok)"
  obtain us r tok' where tried: "sendAgentMessage_try e ?cid ?refs ?tok0 = (us, r, tok')"
    by (cases "sendAgentMessage_try e ?cid ?refs ?tok0")
  have "sendAgentMessage e nt nc msg ctx cur st rep tok =
       (case r of
          Inr u \<Rightarrow> \<lparr>updates = Status Started None # us, outcome = Inr u, token_after = tok'\<rparr>
        | Inl err \<Rightarrow>
            \<lparr>updates = Status Started None # us @ [Status ErrorStatus (Some (error_message err))],
             outcome = Inl err, token_after = tok'\<rparr>)"
    unfolding sendAgentMessage_explicit tried by simp
  with tried show ?thesis by blast
qed

text \<open>The failures the engine raises itself: abort, exhausted polls, unresolved payment.\<close>

lemma pollLoop_aborted:
  "attempt < maxAttempts \<Longrightarrow> aborted (steps attempt) \<Longrightarrow>
   pollLoop steps tid cid refs attempt tok = ([], Inl (Error ''Request aborted''), tok)"
  by (simp add: pollLoop.simps [of steps tid cid refs attempt tok] pollBody_def)

lemma pollLoop_exhausted:
  "pollLoop steps tid cid refs maxAttempts tok = ([], Inl (Error ''Task polling timeout''), tok)"
  by (simp add: pollLoop.simps [of steps tid cid refs maxAttempts tok])

lemma sendPhase_payment_unresolved:
  "send_fetch e = Inr response \<Longrightarrow> status response = 402 \<Longrightarrow>
   handlePaymentRequired (payment e) tok = (False, tok1, notices) \<Longrightarrow>
   sendPhase e tok = (Inl (Error ''Payment required but not completed''), tok1)"
  by (simp add: sendPhase_def)

text \<open>Concrete runs, computed.\<close>

lemmas run_defs =
  sendAgentMessage_def sendAgentMessage_try_def sendPhase_def readSendResult_def
  getPaymentHeaders_def resolveTaskId_def deriveContextId_def ok_def reply_ok_def task_in_def
  pollLoop.simps pollBody_def maxAttempts_def Let_def clearPaymentToken_def
  extractTextFromTask_def trim_def isWhiteSpace_def isAscii_def

lemma run_env_completes:
  "sendAgentMessage env_completes ''new-task'' ''new-ctx'' ''hello'' None None None None
       (Some ''tok123'')
     = \<lparr>updates =
          [Status Started None,
           TaskMetadata ''t1'' ''new-ctx'' Submitted None,
           TaskMetadata ''t1'' ''new-ctx'' Submitted None,
           TaskMetadata ''t1'' ''new-ctx'' Working None,
           TaskMetadata ''t1'' ''new-ctx'' Completed None,
           FinalAnswer ''final'' False, Status Finished None],
        outcome = Inr (), token_after = None\<rparr>"
  by (simp add: run_defs env_completes_def)

lemma run_env_failed:
  "sendAgentMessage (env_all Failed) ''new-task'' ''new-ctx'' ''hello'' None None None None
       (Some ''tok123'')
     = \<lparr>updates =
          [Status Started None,
           TaskMetadata ''t1'' ''new-ctx'' Submitted None,
           TaskMetadata ''t1'' ''new-ctx'' Failed None,
           Status ErrorStatus (Some ''Task failed: Unknown error'')],
        outcome = Inl (Error ''Task failed: Unknown error''), token_after = None\<rparr>"
  by (simp add: run_defs env_all_def steps_all_def)

lemma run_env_input_required:
  "sendAgentMessage (env_all InputRequired) ''new-task'' ''new-ctx'' ''hello'' None None None None
       (Some ''tok123'')
     = \<lparr>updates =
          [Status Started None,
           TaskMetadata ''t1'' ''new-ctx'' Submitted None,
           TaskMetadata ''t1'' ''new-ctx'' InputRequired None,
           FinalAnswer ''final'' False, Status Finished None],
        outcome = Inr (), token_after = Some ''tok123''\<rparr>"
  by (simp add: run_defs env_all_def steps_all_def)

text \<open>
  C1. Every invocation of \<open>sendAgentMessage\<close> that completes without raising yields
  \<open>Status{started}\<close> first, then only \<open>TaskMetadata\<close> updates, then a \<open>FinalAnswer\<close>
  immediately followed by \<open>Status{finished}\<close> as the last update; the sequence holds exactly
  one \<open>FinalAnswer\<close>.
\<close>

theorem sendAgentMessage_success:
  assumes "outcome (sendAgentMessage e nt nc msg ctx cur st rep tok) = Inr ()"
  shows "(\<exists>mds ans.
            updates (sendAgentMessage e nt nc msg ctx cur st rep tok) =
              Status Started None # mds @ [FinalAnswer ans False, Status Finished None] \<and>
            list_all isTaskMetadata mds) \<and>
         length (filter isFinalAnswer (updates (sendAgentMessage e nt nc msg ctx cur st rep tok))) = 1"
proof -
  from sendAgentMessage_unfold [where e = e and nt = nt and nc = nc and msg = msg and ctx = ctx
      and cur = cur and st = st and rep = rep and tok = tok]
  obtain cid refs tok0 us r tok' where
    tried: "sendAgentMessage_try e cid refs tok0 = (us, r, tok')" and
    run: "sendAgentMessage e nt nc msg ctx cur st rep tok =
       (case r of
          Inr u \<Rightarrow> \<lparr>updates = Status Started None # us, outcome = Inr u, token_after = tok'\<rparr>
        | Inl err \<Rightarrow>
            \<lparr>updates = Status Started None # us @ [Status ErrorStatus (Some (error_message err))],
             outcome = Inl err, token_after = tok'\<rparr>)"
    by blast
  from assms run have r: "r = Inr ()"
    by (cases r) simp_all
  from sendAgentMessage_try_Inr [of e cid refs tok0 us "()" tok'] tried r
  obtain mds ans where us: "us = mds @ [FinalAnswer ans False, Status Finished None]"
    and mds: "list_all isTaskMetadata mds"
    by blast
  have none: "filter isFinalAnswer mds = []"
    using mds by (induction mds) (auto elim: isTaskMetadata.elims)
  have upd: "updates (sendAgentMessage e nt nc msg ctx cur st rep tok) =
               Status Started None # mds @ [FinalAnswer ans False, Status Finished None]"
    by (simp add: run r us)
  show ?thesis
    using mds none by (auto simp: upd)
qed

theorem sendAgentMessage_success_witness:
  "outcome (sendAgentMessage env_completes ''new-task'' ''new-ctx'' ''hello'' None None None None
      (Some ''tok123'')) = Inr () \<and>
   (\<exists>mds ans.
      updates (sendAgentMessage env_completes ''new-task'' ''new-ctx'' ''hello'' None None None None
        (Some ''tok123''))
        = Status Started None # mds @ [FinalAnswer ans False, Status Finished None] \<and>
      list_all isTaskMetadata mds) \<and>
   length (filter isFinalAnswer
     (updates (sendAgentMessage env_completes ''new-task'' ''new-ctx'' ''hello'' None None None None
        (Some ''tok123'')))) = 1"
proof -
  have returns: "outcome (sendAgentMessage env_completes ''new-task'' ''new-ctx'' ''hello''
      None None None None (Some ''tok123'')) = Inr ()"
    by (simp add: run_env_completes)
  from sendAgentMessage_success [OF returns] returns show ?thesis
    by blast
qed

text \<open>
  C4. Every invocation of \<open>sendAgentMessage\<close> that raises has yielded, as its last update,
  \<open>Status{error}\<close> carrying the message of the error raised (\<open>Unknown error\<close> for a thrown
  value that is not an \<open>Error\<close>). This holds of every failure, whatever its cause.
\<close>

theorem sendAgentMessage_failure:
  assumes "outcome (sendAgentMessage e nt nc msg ctx cur st rep tok) = Inl err"
  shows "updates (sendAgentMessage e nt nc msg ctx cur st rep tok) \<noteq> [] \<and>
         last (updates (sendAgentMessage e nt nc msg ctx cur st rep tok))
           = Status ErrorStatus (Some (error_message err))"
proof -
  from sendAgentMessage_unfold [where e = e and nt = nt and nc = nc and msg = msg and ctx = ctx
      and cur = cur and st = st and rep = rep and tok = tok]
  obtain cid refs tok0 us r tok' where
    tried: "sendAgentMessage_try e cid refs tok0 = (us, r, tok')" and
    run: "sendAgentMessage e nt nc msg ctx cur st rep tok =
       (case r of
          Inr u \<Rightarrow> \<lparr>updates = Status Started None # us, outcome = Inr u, token_after = tok'\<rparr>
        | Inl err \<Rightarrow>
            \<lparr>updates = Status Started None # us @ [Status ErrorStatus (Some (error_message err))],
             outcome = Inl err, token_after = tok'\<rparr>)"
    by blast
  from assms run have "r = Inl err"
    by (cases r) simp_all
  then show ?thesis
    by (simp add: run)
qed

theorem sendAgentMessage_failure_witness:
  "outcome (sendAgentMessage (env_all Failed) ''new-task'' ''new-ctx'' ''hello'' None None None None
      (Some ''tok123'')) = Inl (Error ''Task failed: Unknown error'') \<and>
   last (updates (sendAgentMessage (env_all Failed) ''new-task'' ''new-ctx'' ''hello''
      None None None None (Some ''tok123'')))
     = Status ErrorStatus (Some ''Task failed: Unknown error'')"
proof -
  have raises: "outcome (sendAgentMessage (env_all Failed) ''new-task'' ''new-ctx'' ''hello''
      None None None None (Some ''tok123'')) = Inl (Error ''Task failed: Unknown error'')"
    by (simp add: run_env_failed)
  from sendAgentMessage_failure [OF raises] raises show ?thesis
    by simp
qed

text \<open>
  C3. Take any run of the poll loop, started at any iteration, and the first iteration whose
  poll obtains a task snapshot in a state other than \<open>submitted\<close> and \<open>working\<close>, every
  earlier iteration letting the loop go on. If that state is \<open>completed\<close>, \<open>failed\<close> or
  \<open>canceled\<close>, the run leaves the payment token cleared; if it is \<open>input-required\<close>, the
  run returns normally, its last updates are the \<open>TaskMetadata\<close> of that state, the
  \<open>FinalAnswer\<close> with the text extracted from that snapshot and \<open>Status{finished}\<close>, and the
  token is the one the run started with (on \<open>completed\<close> the same updates are yielded).
  Conversely, a run that leaves a token other than the one it started with has polled a
  snapshot in the state \<open>completed\<close>, \<open>failed\<close> or \<open>canceled\<close>.
\<close>

theorem pollLoop_payment_token:
  "(attempt \<le> k \<and> k < maxAttempts \<and>
    (\<forall>j. attempt \<le> j \<and> j < k \<longrightarrow> continues (steps j)) \<and>
    polledTask (steps k) = Some task \<longrightarrow>
      (status_state task = Completed \<longrightarrow>
         (\<exists>pre. pollLoop steps tid cid refs attempt tok =
                  (pre @ [TaskMetadata tid cid Completed refs,
                          FinalAnswer (extractTextFromTask task) False, Status Finished None],
                   Inr (), None))) \<and>
      (status_state task = InputRequired \<longrightarrow>
         (\<exists>pre. pollLoop steps tid cid refs attempt tok =
                  (pre @ [TaskMetadata tid cid InputRequired refs,
                          FinalAnswer (extractTextFromTask task) False, Status Finished None],
                   Inr (), tok))) \<and>
      (status_state task = Failed \<or> status_state task = Canceled \<longrightarrow>
         (\<exists>us err. pollLoop steps tid cid refs attempt tok = (us, Inl err, None)))) \<and>
   (snd (snd (pollLoop steps tid cid refs attempt tok)) \<noteq> tok \<longrightarrow>
      (\<exists>k task. attempt \<le> k \<and> k < maxAttempts \<and>
         (\<forall>j. attempt \<le> j \<and> j < k \<longrightarrow> continues (steps j)) \<and>
         polledTask (steps k) = Some task \<and>
         (status_state task = Completed \<or> status_state task = Failed \<or>
          status_state task = Canceled)))"
proof (intro conjI impI)
  assume reach: "attempt \<le> k \<and> k < maxAttempts \<and>
    (\<forall>j. attempt \<le> j \<and> j < k \<longrightarrow> continues (steps j)) \<and> polledTask (steps k) = Some task"
  then have body: "pollBody (steps k) tid cid refs tok =
    (if status_state task = Completed then
       Stop [TaskMetadata tid cid Completed refs, FinalAnswer (extractTextFromTask task) False,
             Status Finished None] (Inr ()) None
     else if status_state task = InputRequired then
       Stop [TaskMetadata tid cid InputRequired refs, FinalAnswer (extractTextFromTask task) False,
             Status Finished None] (Inr ()) tok
     else if status_state task = Failed then
       Stop [TaskMetadata tid cid Failed refs]
         (Inl (Error (''Task failed: '' @
            or_default (case metadata task of None \<Rightarrow> None | Some m \<Rightarrow> map_of m ''error'')
              ''Unknown error''))) None
     else if status_state task = Canceled then
       Stop [TaskMetadata tid cid Canceled refs] (Inl (Error ''Task was canceled'')) None
     else Continue [TaskMetadata tid cid (status_state task) refs])"
    by (simp add: pollBody_polledTask)
  {
    assume "status_state task = Completed"
    with body reach pollLoop_reaches [of attempt k steps tid cid refs tok]
    show "\<exists>pre. pollLoop steps tid cid refs attempt tok =
                  (pre @ [TaskMetadata tid cid Completed refs,
                          FinalAnswer (extractTextFromTask task) False, Status Finished None],
                   Inr (), None)"
      by simp
  next
    assume "status_state task = InputRequired"
    with body reach pollLoop_reaches [of attempt k steps tid cid refs tok]
    show "\<exists>pre. pollLoop steps tid cid refs attempt tok =
                  (pre @ [TaskMetadata tid cid InputRequired refs,
                          FinalAnswer (extractTextFromTask task) False, Status Finished None],
                   Inr (), tok)"
      by simp
  next
    assume "status_state task = Failed \<or> status_state task = Canceled"
    with body reach pollLoop_reaches [of attempt k steps tid cid refs tok]
    show "\<exists>us err. pollLoop steps tid cid refs attempt tok = (us, Inl err, None)"
      by auto
  }
next
  assume changed: "snd (snd (pollLoop steps tid cid refs attempt tok)) \<noteq> tok"
  obtain us r tok' where run: "pollLoop steps tid cid refs attempt tok = (us, r, tok')"
    by (cases "pollLoop steps tid cid refs attempt tok")
  with changed have "tok' \<noteq> tok" by simp
  from pollLoop_token_changed [OF run this]
  show "\<exists>k task. attempt \<le> k \<and> k < maxAttempts \<and>
         (\<forall>j. attempt \<le> j \<and> j < k \<longrightarrow> continues (steps j)) \<and>
         polledTask (steps k) = Some task \<and>
         (status_state task = Completed \<or> status_state task = Failed \<or>
          status_state task = Canceled)" .
qed

lemma polls_env_completes_continue:
  "\<forall>j. 0 \<le> j \<and> j < 2 \<longrightarrow> continues (polls env_completes j)"
proof (intro allI impI)
  fix j :: nat assume "0 \<le> j \<and> j < 2"
  then have "j = 0 \<or> j = 1" by auto
  then show "continues (polls env_completes j)"
    by (auto simp: continues_def polledTask_def env_completes_def reply_ok_def ok_def task_in_def)
qed

theorem pollLoop_payment_token_witness:
  "snd (snd (pollLoop (polls env_completes) ''t1'' ''c1'' None 0 (Some ''tok123''))) = None \<and>
   fst (snd (pollLoop (steps_all InputRequired) ''t1'' ''c1'' None 0 (Some ''tok123''))) = Inr () \<and>
   snd (snd (pollLoop (steps_all InputRequired) ''t1'' ''c1'' None 0 (Some ''tok123'')))
     = Some ''tok123'' \<and>
   snd (snd (pollLoop (steps_all Canceled) ''t1'' ''c1'' None 0 (Some ''tok123''))) = None"
proof -
  have two: "(0::nat) \<le> 2 \<and> 2 < maxAttempts \<and>
      (\<forall>j. 0 \<le> j \<and> j < 2 \<longrightarrow> continues (polls env_completes j)) \<and>
      polledTask (polls env_completes 2) = Some (task_in Completed)"
    using polls_env_completes_continue
    by (simp add: maxAttempts_def polledTask_def env_completes_def reply_ok_def ok_def)
  have first: "(0::nat) \<le> 0 \<and> 0 < maxAttempts \<and>
      (\<forall>j. 0 \<le> j \<and> j < 0 \<longrightarrow> continues (steps_all st j)) \<and>
      polledTask (steps_all st 0) = Some (task_in st)" for st
    by (simp add: maxAttempts_def polledTask_def steps_all_def reply_ok_def ok_def)
  have state: "status_state (task_in st) = st" for st
    by (simp add: task_in_def)
  from pollLoop_payment_token
         [where attempt = 0 and k = 2 and steps = "polls env_completes"
            and task = "task_in Completed" and tid = "''t1''" and cid = "''c1''" and refs = None
            and tok = "Some ''tok123''"] two state [of Completed]
  have a: "snd (snd (pollLoop (polls env_completes) ''t1'' ''c1'' None 0 (Some ''tok123''))) = None"
    by auto
  from pollLoop_payment_token
         [where attempt = 0 and k = 0 and steps = "steps_all InputRequired"
            and task = "task_in InputRequired" and tid = "''t1''" and cid = "''c1''"
            and refs = None and tok = "Some ''tok123''"] first [of InputRequired]
       state [of InputRequired]
  have b: "fst (snd (pollLoop (steps_all InputRequired) ''t1'' ''c1'' None 0 (Some ''tok123'')))
             = Inr () \<and>
           snd (snd (pollLoop (steps_all InputRequired) ''t1'' ''c1'' None 0 (Some ''tok123'')))
             = Some ''tok123''"
    by auto
  from pollLoop_payment_token
         [where attempt = 0 and k = 0 and steps = "steps_all Canceled"
            and task = "task_in Canceled" and tid = "''t1''" and cid = "''c1''"
            and refs = None and tok = "Some ''tok123''"] first [of Canceled] state [of Canceled]
  have c: "snd (snd (pollLoop (steps_all Canceled) ''t1'' ''c1'' None 0 (Some ''tok123''))) = None"
    by auto
  from a b c show ?thesis by simp
qed

text \<open>
  C5, as amended. In the poll loop a fetch of the task snapshot that answers with a
  non-success HTTP status is swallowed: nothing is yielded, the token is untouched, and the
  loop goes on with the next iteration. A fetch that fails at the transport level (the call
  rejects) ends the operation with that error, in the poll loop as in the initial send.
\<close>

theorem pollLoop_failed_fetch:
  "(attempt < maxAttempts \<and> \<not> aborted (steps attempt) \<and> poll_fetch (steps attempt) = Inr resp \<and>
    \<not> ok resp \<longrightarrow>
      pollLoop steps tid cid refs attempt tok = pollLoop steps tid cid refs (Suc attempt) tok) \<and>
   (attempt < maxAttempts \<and> \<not> aborted (steps attempt) \<and> poll_fetch (steps attempt) = Inl err \<longrightarrow>
      pollLoop steps tid cid refs attempt tok = ([], Inl err, tok)) \<and>
   (send_fetch e = Inl err \<longrightarrow>
      outcome (sendAgentMessage e nt nc msg ctx cur st rep tok0) = Inl err)"
proof (intro conjI impI)
  assume "attempt < maxAttempts \<and> \<not> aborted (steps attempt) \<and>
          poll_fetch (steps attempt) = Inr resp \<and> \<not> ok resp"
  then show "pollLoop steps tid cid refs attempt tok = pollLoop steps tid cid refs (Suc attempt) tok"
    by (simp add: pollLoop.simps [of steps tid cid refs attempt tok] pollBody_def
             split: prod.splits)
next
  assume "attempt < maxAttempts \<and> \<not> aborted (steps attempt) \<and> poll_fetch (steps attempt) = Inl err"
  then show "pollLoop steps tid cid refs attempt tok = ([], Inl err, tok)"
    by (simp add: pollLoop.simps [of steps tid cid refs attempt tok] pollBody_def)
next
  assume "send_fetch e = Inl err"
  then show "outcome (sendAgentMessage e nt nc msg ctx cur st rep tok0) = Inl err"
    by (simp add: sendAgentMessage_explicit sendAgentMessage_try_def sendPhase_def)
qed

theorem pollLoop_failed_fetch_witness:
  "pollLoop (steps_first reply_503) ''t1'' ''c1'' None 0 (Some ''tok123'')
     = pollLoop (steps_first reply_503) ''t1'' ''c1'' None (Suc 0) (Some ''tok123'') \<and>
   pollLoop (steps_first (Inl (Error ''Failed to fetch''))) ''t1'' ''c1'' None 0 (Some ''tok123'')
     = ([], Inl (Error ''Failed to fetch''), Some ''tok123'') \<and>
   outcome (sendAgentMessage (env_poll_rejects\<lparr>send_fetch := Inl (Error ''Failed to fetch'')\<rparr>)
      ''new-task'' ''new-ctx'' ''hello'' None None None None (Some ''tok123''))
     = Inl (Error ''Failed to fetch'')"
  using pollLoop_failed_fetch
          [where attempt = 0 and steps = "steps_first reply_503"
             and resp = "\<lparr>status = 503, json = Inl (Error ''Unexpected token''),
                           body_text = Inr ''Service Unavailable''\<rparr>"
             and tid = "''t1''" and cid = "''c1''" and refs = None and tok = "Some ''tok123''"]
        pollLoop_failed_fetch
          [where attempt = 0 and steps = "steps_first (Inl (Error ''Failed to fetch''))"
             and err = "Error ''Failed to fetch''"
             and tid = "''t1''" and cid = "''c1''" and refs = None and tok = "Some ''tok123''"
             and e = "env_poll_rejects\<lparr>send_fetch := Inl (Error ''Failed to fetch'')\<rparr>"
             and nt = "''new-task''" and nc = "''new-ctx''" and msg = "''hello''" and ctx = None
             and cur = None and st = None and rep = None and ?tok0.0 = "Some ''tok123''"]
  by (simp add: steps_first_def reply_503_def ok_def maxAttempts_def)

text \<open>
  C5 as stated fails when the first poll's \<open>fetch\<close> rejects: the operation ends with that
  error, although the loop, had it gone on, would have found the task completed at the next
  iteration.
\<close>

theorem pollLoop_rejected_fetch_counterexample:
  "sendAgentMessage env_poll_rejects ''new-task'' ''new-ctx'' ''hello'' None None None None
       (Some ''tok123'')
     = \<lparr>updates =
          [Status Started None, TaskMetadata ''t1'' ''new-ctx'' Submitted None,
           Status ErrorStatus (Some ''Failed to fetch'')],
        outcome = Inl (Error ''Failed to fetch''), token_after = Some ''tok123''\<rparr> \<and>
   pollLoop (polls env_poll_rejects) ''t1'' ''new-ctx'' None (Suc 0) (Some ''tok123'')
     = ([TaskMetadata ''t1'' ''new-ctx'' Completed None, FinalAnswer ''final'' False,
         Status Finished None], Inr (), None)"
  by (simp add: run_defs env_poll_rejects_def steps_first_def)

section \<open>Properties of the context previews\<close>

text \<open>The loop with \<open>break\<close> finds the first user-role text of the history.\<close>

lemma previewOfHistory_firstUserText: "previewOfHistory h = firstUserText h"
proof (induction h)
  case Nil
  show ?case by (simp add: firstUserText_def)
next
  case (Cons m h)
  show ?case
  proof (cases "cm_role m = ''user'' \<and> chatTextParts (cm_parts m) \<noteq> []")
    case True
    then obtain t ts where "chatTextParts (cm_parts m) = t # ts"
      by (cases "chatTextParts (cm_parts m)") auto
    with True show ?thesis
      by (simp add: firstUserText_def Let_def)
  next
    case False
    with Cons.IH show ?thesis
      by (auto simp: firstUserText_def Let_def)
  qed
qed

lemma loadPreview_title:
  "firstMessage (loadPreview getTask getTime (transformContext now sc))
     = title_amended getTask (transformContext now sc)"
  by (cases "ids_or (sc_task_ids sc) (sc_taskIds sc)")
     (auto simp: loadPreview_def title_amended_def transformContext_def Let_def
                 previewOfHistory_firstUserText
           split: sum.splits option.splits)

text \<open>
  C9, as amended. For every context, the preview title computed by \<open>loadContexts\<close> equals
  the first user-role text found in the history of the context's first listed task (the
  first entry of its task-id list, whatever the timestamps), truncated to 50 characters; it
  stays the placeholder when the context lists no task, when that task does not load, or when
  its history has no user-role text.
\<close>

theorem loadContexts_titles:
  assumes "loadContexts listed getTask now getTime = Inr cs"
  shows "\<exists>scs. listed = Inr scs \<and>
           map firstMessage cs = map (\<lambda>sc. title_amended getTask (transformContext now sc)) scs"
  using assms by (cases listed) (auto simp: loadContexts_def loadPreview_title)

theorem loadContexts_titles_witness:
  "\<exists>cs. loadContexts (Inr [server_context_two]) getTask_two 0 getTime_two = Inr cs \<and>
        map firstMessage cs = [''second question'']"
proof -
  obtain cs where loaded: "loadContexts (Inr [server_context_two]) getTask_two 0 getTime_two = Inr cs"
    by (simp add: loadContexts_def)
  from loadContexts_titles [OF loaded]
  have "map firstMessage cs = [title_amended getTask_two (transformContext 0 server_context_two)]"
    by auto
  then have "map firstMessage cs = [''second question'']"
    by (simp add: title_amended_def transformContext_def server_context_two_def ids_or_def
          getTask_two_def chat_task_at_def user_says_def firstUserText_def chatTextParts_def)
  with loaded show ?thesis by (intro exI [of _ cs]) simp
qed

text \<open>
  C9 as stated fails when the first listed task is not the earliest one by
  \<open>status.timestamp\<close>: the title comes from the first listed task.
\<close>

theorem loadPreview_earliest_counterexample:
  "firstMessage (loadPreview getTask_two getTime_two (transformContext 0 server_context_two))
     = ''second question'' \<and>
   title_spec getTask_two getTime_two (transformContext 0 server_context_two)
     = Some ''first question''"
  by (simp add: loadPreview_def title_spec_def transformContext_def server_context_two_def
        ids_or_def getTask_two_def getTime_two_def chat_task_at_def user_says_def firstUserText_def
        chatTextParts_def contextTasks_def taskTime_def str_or_def count_or_def Let_def)

end
